theory Spec2Isabelle
  imports Main
begin

section \<open>The provisioning script of the training-to-C pipeline\<close>

text \<open>
  The script is one function, \<open>main\<close>, that calls the platform SDK in a fixed order.
  The model makes the three things a run can do explicit:
  \<^item> it prints lines and calls the SDK: both are recorded, in order, in a trace;
  \<^item> it stops with an exception: the result is \<open>Inl\<close> of that exception;
  \<^item> it reads its surroundings (parsed arguments, \<open>os.environ\<close>, the file system, and
    what each SDK call answers): these are the fields of the record \<open>world\<close>, about
    which nothing is assumed.
\<close>

subsection \<open>Exceptions\<close>

text \<open>
  \<open>KeyError\<close> carries the missing key, \<open>AttributeError\<close> the attribute that was read
  on \<open>None\<close>, the others their message. \<open>SdkError\<close> stands for every other exception
  class the SDK may raise (authentication, quota, validation, transport).
\<close>

datatype exn =
    KeyError string
  | FileNotFoundError string
  | AttributeError string
  | ResourceExistsError string
  | SdkError string

subsection \<open>Entities of the SDK that the script builds or reads\<close>

record AmlCompute =
  aml_name :: string
  aml_type :: string
  aml_size :: string
  aml_min_instances :: int
  aml_max_instances :: int
  aml_idle_time_before_scale_down :: int
  aml_identity_type :: string

record IdentityConfiguration =
  identity_principal_id :: string

text \<open>A compute as the workspace returns it; \<open>identity\<close> is \<open>None\<close> when it has none.\<close>

record Compute =
  compute_name :: string
  compute_identity :: "IdentityConfiguration option"

record Datastore =
  account_name :: string

record RoleAssignmentCreateParameters =
  role_definition_id :: string
  param_principal_id :: string
  principal_type :: string

record RoleAssignment =
  role_assignment_id :: string

text \<open>\<open>Environment(name, description, build=BuildContext(path))\<close>.\<close>

record Environment =
  env_name :: string
  env_description :: string
  env_build_path :: string

text \<open>The environment as registered: the platform has given it a version.\<close>

record RegisteredEnvironment =
  registered_version :: string

text \<open>\<open>Input(type, description)\<close> and \<open>Output(type, description)\<close>.\<close>

record Port =
  port_type :: string
  port_description :: string

text \<open>What \<open>command(...)\<close> returns: a component that can be instantiated as a step.\<close>

record Component =
  cmd_name :: string
  cmd_display_name :: string
  cmd_description :: string
  cmd_environment :: string
  cmd_compute :: string
  cmd_code :: string
  cmd_inputs :: "(string \<times> Port) list"
  cmd_outputs :: "(string \<times> Port) list"
  cmd_command :: string

text \<open>
  \<open>step.outputs.name\<close>: a reference to the output \<open>name\<close> of a step. Steps are known
  by the variable they are bound to in \<open>nn_pipeline\<close>.
\<close>

datatype NodeOutput = NodeOutput string string

record Step =
  step_name :: string
  step_component :: Component
  step_inputs :: "(string \<times> NodeOutput) list"

record Pipeline =
  pipeline_name :: string
  pipeline_description :: string
  pipeline_compute :: string
  pipeline_steps :: "Step list"
  pipeline_outputs :: "(string \<times> NodeOutput) list"

record Job =
  job_name :: string

subsection \<open>The file system\<close>

datatype node = RegularFile | Directory

text \<open>\<open>os.path.exists\<close>: true for whatever the path names, file or directory.\<close>

definition os_path_exists :: "(string \<rightharpoonup> node) \<Rightarrow> string \<Rightarrow> bool" where
  "os_path_exists fs p = (fs p \<noteq> None)"

subsection \<open>The surroundings of a run\<close>

text \<open>
  \<open>args_run\<close> is \<open>args.run\<close>, what \<open>parse_args\<close> returns for the flag \<open>--run\<close>;
  \<open>environ\<close> is \<open>os.environ\<close> once \<open>load_dotenv()\<close> has run; \<open>filesystem\<close> says what
  each path names, if anything; \<open>uuid4\<close> is the identifier \<open>uuid.uuid4()\<close> draws.

  Each SDK entry point is a field giving its answer for the arguments it is called
  with: \<open>Inl e\<close> when it raises \<open>e\<close>, \<open>Inr v\<close> when it returns \<open>v\<close>.
  \<open>DefaultAzureCredential\<close> is constructed twice (lines 28 and 79), so its answer
  depends on which construction it is (0 or 1).
  \<open>compute_begin_create_or_update\<close> answers for the call together with the
  \<open>.result()\<close> that waits for it.

  The constructors of entities (\<open>AmlCompute\<close>, \<open>Environment\<close>, \<open>BuildContext\<close>,
  \<open>RoleAssignmentCreateParameters\<close>, \<open>command\<close>, \<open>Input\<close>, \<open>Output\<close>) and the
  \<open>dsl.pipeline\<close> decorator build values and are modelled as such. The f-strings of
  lines 83 and 84 nest double quotes, which Python accepts from version 3.12 on: the
  model is of the script as such an interpreter runs it.
\<close>

record world =
  args_run :: bool
  environ :: "string \<rightharpoonup> string"
  filesystem :: "string \<rightharpoonup> node"
  uuid4 :: string
  DefaultAzureCredential :: "nat \<Rightarrow> exn + unit"
  MLClient :: "string \<Rightarrow> string \<Rightarrow> string \<Rightarrow> exn + unit"
  compute_list :: "exn + Compute list"
  compute_begin_create_or_update :: "AmlCompute \<Rightarrow> exn + unit"
  compute_get :: "string \<Rightarrow> exn + Compute"
  datastores_get :: "string \<Rightarrow> exn + Datastore"
  AuthorizationManagementClient :: "string \<Rightarrow> exn + unit"
  role_assignments_create ::
    "string \<Rightarrow> string \<Rightarrow> RoleAssignmentCreateParameters \<Rightarrow> exn + RoleAssignment"
  environments_create_or_update :: "Environment \<Rightarrow> exn + RegisteredEnvironment"
  jobs_create_or_update :: "Pipeline \<Rightarrow> exn + Job"

subsection \<open>Traces\<close>

datatype call =
    Default_Azure_Credential
  | ML_Client string string string
  | Compute_List
  | Compute_Begin_Create_Or_Update AmlCompute
  | Compute_Get string
  | Datastores_Get string
  | Authorization_Management_Client string
  | Role_Assignments_Create string string RoleAssignmentCreateParameters
  | Environments_Create_Or_Update Environment
  | Jobs_Create_Or_Update Pipeline

text \<open>A call is recorded with how it ended: it returned, or it raised an exception.\<close>

datatype event = Print string | Returned call | Raised call exn

type_synonym 'a io = "event list \<times> (exn + 'a)"

definition io_return :: "'a \<Rightarrow> 'a io" where
  "io_return x = ([], Inr x)"

definition io_raise :: "exn \<Rightarrow> 'a io" where
  "io_raise e = ([], Inl e)"

text \<open>Sequencing: an exception in the first part skips the rest.\<close>

definition io_bind :: "'a io \<Rightarrow> ('a \<Rightarrow> 'b io) \<Rightarrow> 'b io" where
  "io_bind m f =
     (case m of
        (t, Inl e) \<Rightarrow> (t, Inl e)
      | (t, Inr x) \<Rightarrow> (case f x of (t', r) \<Rightarrow> (t @ t', r)))"

definition print :: "string \<Rightarrow> unit io" where
  "print s = ([Print s], Inr ())"

definition invoke :: "call \<Rightarrow> exn + 'a \<Rightarrow> 'a io" where
  "invoke c answer =
     (case answer of
        Inl e \<Rightarrow> ([Raised c e], Inl e)
      | Inr v \<Rightarrow> ([Returned c], Inr v))"

text \<open>\<open>os.environ[key]\<close> raises \<open>KeyError\<close> when the variable is not set.\<close>

definition os_environ :: "world \<Rightarrow> string \<Rightarrow> string io" where
  "os_environ w key =
     (case environ w key of
        None \<Rightarrow> io_raise (KeyError key)
      | Some v \<Rightarrow> io_return v)"

text \<open>\<open>try: body  except ResourceExistsError: handler\<close>.\<close>

definition try_except_ResourceExistsError :: "'a io \<Rightarrow> 'a io \<Rightarrow> 'a io" where
  "try_except_ResourceExistsError body handler =
     (case body of
        (t, Inl (ResourceExistsError m)) \<Rightarrow> (case handler of (t', r) \<Rightarrow> (t @ t', r))
      | _ \<Rightarrow> body)"

subsection \<open>Lines 26--32: connect to the workspace\<close>

text \<open>
  Python evaluates the positional argument first, then the keyword arguments from
  left to right, then calls \<open>MLClient\<close>.
\<close>

definition connect :: "world \<Rightarrow> unit io" where
  "connect w =
     io_bind (invoke Default_Azure_Credential (DefaultAzureCredential w 0)) (\<lambda>credential.
     io_bind (os_environ w ''subscription_id'') (\<lambda>subscription_id.
     io_bind (os_environ w ''resource_group_name'') (\<lambda>resource_group_name.
     io_bind (os_environ w ''workspace_name'') (\<lambda>workspace_name.
     invoke (ML_Client subscription_id resource_group_name workspace_name)
            (MLClient w subscription_id resource_group_name workspace_name)))))"

subsection \<open>Lines 34--52: the required directories\<close>

definition directories :: "string list" where
  "directories =
     [''environments/pytorch'',
      ''environments/onnx2c'',
      ''environments/gcc'',
      ''src/pytorch_train'',
      ''src/onnx2c'',
      ''src/compile_test'',
      ''src/minimal_binary'']"

definition missing_directories :: "world \<Rightarrow> string list" where
  "missing_directories w =
     filter (\<lambda>directory. \<not> os_path_exists (filesystem w) directory) directories"

fun print_missing :: "string list \<Rightarrow> unit io" where
  "print_missing [] = io_return ()"
| "print_missing (directory # rest) =
     io_bind (print ('' - '' @ directory)) (\<lambda>_. print_missing rest)"

definition check_directories :: "world \<Rightarrow> unit io" where
  "check_directories w =
     (if missing_directories w \<noteq> [] then
        io_bind (print ''The following required directories are missing:'') (\<lambda>_.
        io_bind (print_missing (missing_directories w)) (\<lambda>_.
        io_raise (FileNotFoundError
          ''One or more required directories are missing. Please create them and try again.'')))
      else print ''All required directories are present.'')"

subsection \<open>Lines 55--73: the compute cluster and its identity\<close>

definition compute_cluster :: AmlCompute where
  "compute_cluster =
     \<lparr>aml_name = ''cpu-cluster'',
      aml_type = ''amlcompute'',
      aml_size = ''Standard_DS3_v2'',
      aml_min_instances = 0,
      aml_max_instances = 4,
      aml_idle_time_before_scale_down = 120,
      aml_identity_type = ''SystemAssigned''\<rparr>"

text \<open>\<open>x.identity.principal_id\<close>: reading an attribute of \<open>None\<close> raises.\<close>

definition read_principal_id :: "Compute \<Rightarrow> string io" where
  "read_principal_id c =
     (case compute_identity c of
        None \<Rightarrow> io_raise (AttributeError ''principal_id'')
      | Some i \<Rightarrow> io_return (identity_principal_id i))"

definition create_compute :: "world \<Rightarrow> string io" where
  "create_compute w =
     io_bind (print ''Creating compute cluster...'') (\<lambda>_.
     io_bind (invoke Compute_List (compute_list w)) (\<lambda>computes.
     io_bind
       (if ''cpu-cluster'' \<notin> set (map compute_name computes) then
          io_bind (invoke (Compute_Begin_Create_Or_Update compute_cluster)
                          (compute_begin_create_or_update w compute_cluster)) (\<lambda>_.
          print ''Compute cluster created.'')
        else print ''Compute cluster already exists.'') (\<lambda>_.
     io_bind (invoke (Compute_Get ''cpu-cluster'') (compute_get w ''cpu-cluster'')) (\<lambda>c.
     io_bind (read_principal_id c) (\<lambda>principal_id.
     io_bind (print (''Compute cluster identity principal ID: '' @ principal_id)) (\<lambda>_.
     io_return principal_id))))))"

subsection \<open>Lines 74--104: the role assignment\<close>

definition prepare_role_assignment ::
  "world \<Rightarrow> string \<Rightarrow> (string \<times> string \<times> RoleAssignmentCreateParameters) io" where
  "prepare_role_assignment w principal_id =
     io_bind (invoke (Datastores_Get ''workspaceblobstore'')
                     (datastores_get w ''workspaceblobstore'')) (\<lambda>datastore.
     io_bind (invoke Default_Azure_Credential (DefaultAzureCredential w 1)) (\<lambda>credential.
     io_bind (os_environ w ''subscription_id'') (\<lambda>sub0.
     io_bind (invoke (Authorization_Management_Client sub0)
                     (AuthorizationManagementClient w sub0)) (\<lambda>authorization_client.
     io_bind (os_environ w ''subscription_id'') (\<lambda>sub1.
     io_bind (os_environ w ''resource_group_name'') (\<lambda>rg.
     io_bind (os_environ w ''subscription_id'') (\<lambda>sub2.
     io_return
       (''/subscriptions/'' @ sub1 @ ''/resourceGroups/'' @ rg
          @ ''/providers/Microsoft.Storage/storageAccounts/'' @ account_name datastore,
        uuid4 w,
        \<lparr>role_definition_id =
            ''/subscriptions/'' @ sub2
              @ ''/providers/Microsoft.Authorization/roleDefinitions/''
              @ ''ba92f5b4-2d11-453d-a403-e96b0029c9fe'',
         param_principal_id = principal_id,
         principal_type = ''ServicePrincipal''\<rparr>))))))))"

definition create_role_assignment ::
  "world \<Rightarrow> string \<Rightarrow> string \<Rightarrow> RoleAssignmentCreateParameters \<Rightarrow> unit io" where
  "create_role_assignment w scope role_assignment_name params =
     try_except_ResourceExistsError
       (io_bind (invoke (Role_Assignments_Create scope role_assignment_name params)
                        (role_assignments_create w scope role_assignment_name params))
          (\<lambda>role_assignment.
             print (''Role assignment created: '' @ role_assignment_id role_assignment)))
       (print ''Role assignment already exists. Skipping creation.'')"

definition assign_role :: "world \<Rightarrow> string \<Rightarrow> unit io" where
  "assign_role w principal_id =
     io_bind (prepare_role_assignment w principal_id) (\<lambda>(scope, role_assignment_name, params).
     create_role_assignment w scope role_assignment_name params)"

subsection \<open>Lines 117--139: the environments\<close>

definition env_configs :: "(string \<times> string \<times> string) list" where
  "env_configs =
     [(''pytorch-onnx-env'', ''environments/pytorch'',
       ''Environment for PyTorch training and ONNX export''),
      (''onnx2c-env'', ''environments/onnx2c'',
       ''Environment for ONNX to C conversion''),
      (''gcc-env'', ''environments/gcc'',
       ''Environment for C compilation and testing'')]"

text \<open>The loop over \<open>env_configs\<close>; \<open>latest_envs\<close> is the dictionary it fills.\<close>

fun register_environments ::
  "world \<Rightarrow> (string \<times> string \<times> string) list \<Rightarrow> (string \<rightharpoonup> string) \<Rightarrow> (string \<rightharpoonup> string) io" where
  "register_environments w [] latest_envs = io_return latest_envs"
| "register_environments w ((name, dir, description) # rest) latest_envs =
     (let env = \<lparr>env_name = name, env_description = description, env_build_path = dir\<rparr> in
      io_bind (invoke (Environments_Create_Or_Update env)
                      (environments_create_or_update w env)) (\<lambda>registered_env.
      io_bind (print (''Environment '' @ name @ '' created/updated with version ''
                        @ registered_version registered_env)) (\<lambda>_.
      register_environments w rest
        (latest_envs(name \<mapsto> name @ '':'' @ registered_version registered_env)))))"

definition create_environments :: "world \<Rightarrow> (string \<rightharpoonup> string) io" where
  "create_environments w =
     io_bind (print ''Creating environments...'') (\<lambda>_.
     register_environments w env_configs Map.empty)"

subsection \<open>Lines 141--208: the four components\<close>

text \<open>\<open>latest_envs[key]\<close> raises \<open>KeyError\<close> when the key is absent.\<close>

definition dict_get :: "(string \<rightharpoonup> string) \<Rightarrow> string \<Rightarrow> string io" where
  "dict_get d key =
     (case d key of
        None \<Rightarrow> io_raise (KeyError key)
      | Some v \<Rightarrow> io_return v)"

definition uri_folder :: "string \<Rightarrow> Port" where
  "uri_folder description = \<lparr>port_type = ''uri_folder'', port_description = description\<rparr>"

definition train_pytorch_model :: "string \<Rightarrow> Component" where
  "train_pytorch_model environment =
     \<lparr>cmd_name = ''pytorch_train'',
      cmd_display_name = ''Train PyTorch Model and Export to ONNX'',
      cmd_description = ''Trains a PyTorch model and exports it to ONNX format'',
      cmd_environment = environment,
      cmd_compute = ''cpu-cluster'',
      cmd_code = ''./src/pytorch_train'',
      cmd_inputs = [],
      cmd_outputs =
        [(''output_dir'', uri_folder ''Output directory for model and test data'')],
      cmd_command = ''python run.py --output_dir ${{outputs.output_dir}}''\<rparr>"

definition convert_onnx_to_c :: "string \<Rightarrow> Component" where
  "convert_onnx_to_c environment =
     \<lparr>cmd_name = ''onnx2c'',
      cmd_display_name = ''Convert ONNX to C'',
      cmd_description = ''Converts ONNX model to C code using onnx2c'',
      cmd_environment = environment,
      cmd_compute = ''cpu-cluster'',
      cmd_code = ''./src/onnx2c'',
      cmd_inputs =
        [(''model_dir'', uri_folder ''Directory containing ONNX model and test data'')],
      cmd_outputs =
        [(''output_dir'', uri_folder ''Output directory for core C model code'')],
      cmd_command =
        ''python run.py --model_dir ${{inputs.model_dir}} --output_dir ${{outputs.output_dir}}''\<rparr>"

definition compile_and_test :: "string \<Rightarrow> Component" where
  "compile_and_test environment =
     \<lparr>cmd_name = ''compile_and_test'',
      cmd_display_name = ''Compile C Code and Run Tests'',
      cmd_description = ''Compiles C code and runs tests'',
      cmd_environment = environment,
      cmd_compute = ''cpu-cluster'',
      cmd_code = ''./src/compile_test'',
      cmd_inputs =
        [(''c_code_dir'', uri_folder ''Directory containing core C model code''),
         (''model_dir'', uri_folder ''Directory containing test data from model training'')],
      cmd_outputs =
        [(''output_dir'', uri_folder ''Output directory for test results'')],
      cmd_command =
        ''python run.py --c_code_dir ${{inputs.c_code_dir}} --model_dir ${{inputs.model_dir}} --output_dir ${{outputs.output_dir}}''\<rparr>"

definition build_minimal_binary :: "string \<Rightarrow> Component" where
  "build_minimal_binary environment =
     \<lparr>cmd_name = ''build_minimal'',
      cmd_display_name = ''Build Minimal Binary'',
      cmd_description = ''Creates minimal binary for deployment'',
      cmd_environment = environment,
      cmd_compute = ''cpu-cluster'',
      cmd_code = ''./src/minimal_binary'',
      cmd_inputs =
        [(''c_code_dir'', uri_folder ''Directory containing core C model code'')],
      cmd_outputs =
        [(''output_dir'', uri_folder ''Output directory for minimal binary'')],
      cmd_command =
        ''python run.py --c_code_dir ${{inputs.c_code_dir}} --output_dir ${{outputs.output_dir}}''\<rparr>"

definition define_components ::
  "(string \<rightharpoonup> string) \<Rightarrow> (Component \<times> Component \<times> Component \<times> Component) io" where
  "define_components latest_envs =
     io_bind (print ''Creating pipeline components...'') (\<lambda>_.
     io_bind (dict_get latest_envs ''pytorch-onnx-env'') (\<lambda>e1.
     io_bind (dict_get latest_envs ''onnx2c-env'') (\<lambda>e2.
     io_bind (dict_get latest_envs ''gcc-env'') (\<lambda>e3.
     io_bind (dict_get latest_envs ''gcc-env'') (\<lambda>e4.
     io_return
       (train_pytorch_model e1, convert_onnx_to_c e2,
        compile_and_test e3, build_minimal_binary e4))))))"

subsection \<open>Lines 210--241: the pipeline\<close>

text \<open>Calling a component with keyword arguments makes a step with those bindings.\<close>

definition instantiate :: "string \<Rightarrow> Component \<Rightarrow> (string \<times> NodeOutput) list \<Rightarrow> Step" where
  "instantiate var component kwargs =
     \<lparr>step_name = var, step_component = component, step_inputs = kwargs\<rparr>"

definition outputs :: "Step \<Rightarrow> string \<Rightarrow> NodeOutput" where
  "outputs step name = NodeOutput (step_name step) name"

definition nn_pipeline :: "Component \<times> Component \<times> Component \<times> Component \<Rightarrow> Pipeline" where
  "nn_pipeline components =
     (case components of (train_c, convert_c, compile_c, build_c) \<Rightarrow>
      let train_step = instantiate ''train_step'' train_c [];
          onnx2c_step = instantiate ''onnx2c_step'' convert_c
            [(''model_dir'', outputs train_step ''output_dir'')];
          compile_step = instantiate ''compile_step'' compile_c
            [(''c_code_dir'', outputs onnx2c_step ''output_dir''),
             (''model_dir'', outputs train_step ''output_dir'')];
          binary_step = instantiate ''binary_step'' build_c
            [(''c_code_dir'', outputs onnx2c_step ''output_dir'')]
      in \<lparr>pipeline_name = ''pytorch-onnx-c-pipeline'',
          pipeline_description =
            ''Pipeline for training PyTorch model, converting to ONNX, C, and building minimal binary'',
          pipeline_compute = ''cpu-cluster'',
          pipeline_steps = [train_step, onnx2c_step, compile_step, binary_step],
          pipeline_outputs =
            [(''training_output'', outputs train_step ''output_dir''),
             (''c_code_output'', outputs onnx2c_step ''output_dir''),
             (''test_results'', outputs compile_step ''output_dir''),
             (''minimal_binary'', outputs binary_step ''output_dir'')]\<rparr>)"

subsection \<open>Lines 243--249: submit the pipeline when asked to\<close>

definition submit :: "world \<Rightarrow> Pipeline \<Rightarrow> unit io" where
  "submit w pipeline =
     (if args_run w then
        io_bind (invoke (Jobs_Create_Or_Update pipeline) (jobs_create_or_update w pipeline))
          (\<lambda>pipeline_job.
             print (''Pipeline job submitted with ID: '' @ job_name pipeline_job))
      else
        io_bind (print (CHR 0x0A # ''Setup complete! Pipeline is ready to be submitted.'')) (\<lambda>_.
        print ''Run the pipeline with the --run flag to execute it.''))"

subsection \<open>\<open>main\<close>\<close>

text \<open>
  Everything up to and including \<open>pipeline = nn_pipeline()\<close>. The Python \<open>main\<close>
  returns nothing; the model returns the pipeline it declared, so that it can be
  inspected.
\<close>

definition provision :: "world \<Rightarrow> Pipeline io" where
  "provision w =
     io_bind (connect w) (\<lambda>ml_client.
     io_bind (check_directories w) (\<lambda>_.
     io_bind (create_compute w) (\<lambda>principal_id.
     io_bind (assign_role w principal_id) (\<lambda>_.
     io_bind (create_environments w) (\<lambda>latest_envs.
     io_bind (define_components latest_envs) (\<lambda>components.
     io_return (nn_pipeline components)))))))"

definition main :: "world \<Rightarrow> Pipeline io" where
  "main w =
     io_bind (provision w) (\<lambda>pipeline.
     io_bind (submit w pipeline) (\<lambda>_.
     io_return pipeline))"

section \<open>Observing a run\<close>

text \<open>The calls of a trace, in order, whether they returned or raised.\<close>

fun called :: "event \<Rightarrow> call option" where
  "called (Print s) = None"
| "called (Returned c) = Some c"
| "called (Raised c e) = Some c"

definition calls :: "event list \<Rightarrow> call list" where
  "calls t = List.map_filter called t"

text \<open>
  Constructing a credential or a client object builds a local handle; every other
  call is an operation on the workspace or on the authorization service.
\<close>

fun client_constructor :: "call \<Rightarrow> bool" where
  "client_constructor Default_Azure_Credential = True"
| "client_constructor (ML_Client s r n) = True"
| "client_constructor (Authorization_Management_Client s) = True"
| "client_constructor c = False"

definition remote_calls :: "event list \<Rightarrow> call list" where
  "remote_calls t = filter (\<lambda>c. \<not> client_constructor c) (calls t)"

fun creation :: "call \<Rightarrow> AmlCompute option" where
  "creation (Compute_Begin_Create_Or_Update c) = Some c"
| "creation c = None"

definition creations :: "event list \<Rightarrow> AmlCompute list" where
  "creations t = List.map_filter creation (calls t)"

fun registration :: "call \<Rightarrow> Environment option" where
  "registration (Environments_Create_Or_Update e) = Some e"
| "registration c = None"

definition registrations :: "event list \<Rightarrow> Environment list" where
  "registrations t = List.map_filter registration (calls t)"

fun submission :: "call \<Rightarrow> Pipeline option" where
  "submission (Jobs_Create_Or_Update p) = Some p"
| "submission c = None"

definition submissions :: "event list \<Rightarrow> Pipeline list" where
  "submissions t = List.map_filter submission (calls t)"

text \<open>The one \<open>except\<close> clause of the script: which raise of which call it catches.\<close>

fun handled :: "call \<Rightarrow> exn \<Rightarrow> bool" where
  "handled (Role_Assignments_Create s n p) (ResourceExistsError m) = True"
| "handled c e = False"

text \<open>
  The connections of a pipeline: (producing step, its output, consuming step, its
  input), for every input binding of every step.
\<close>

definition step_edges :: "Step \<Rightarrow> (string \<times> string \<times> string \<times> string) list" where
  "step_edges s =
     map (\<lambda>(input, source). case source of NodeOutput producer output \<Rightarrow>
            (producer, output, step_name s, input))
         (step_inputs s)"

definition edges :: "Pipeline \<Rightarrow> (string \<times> string \<times> string \<times> string) list" where
  "edges p = concat (map step_edges (pipeline_steps p))"

subsection \<open>A sample deployment\<close>

text \<open>
  A workspace with no compute yet, all seven directories in place, every call
  answering normally, and no \<open>--run\<close> flag.
\<close>

definition sample_world :: world where
  "sample_world =
     \<lparr>args_run = False,
      environ = [''subscription_id'' \<mapsto> ''sub-1'', ''resource_group_name'' \<mapsto> ''rg-1'',
                 ''workspace_name'' \<mapsto> ''ws-1''],
      filesystem = map_of (map (\<lambda>d. (d, Directory)) directories),
      uuid4 = ''0f8fad5b-d9cb-469f-a165-70867728950e'',
      DefaultAzureCredential = (\<lambda>n. Inr ()),
      MLClient = (\<lambda>s r n. Inr ()),
      compute_list = Inr [],
      compute_begin_create_or_update = (\<lambda>c. Inr ()),
      compute_get = (\<lambda>n. Inr \<lparr>compute_name = n,
                       compute_identity = Some \<lparr>identity_principal_id = ''principal-1''\<rparr>\<rparr>),
      datastores_get = (\<lambda>n. Inr \<lparr>account_name = ''storage1''\<rparr>),
      AuthorizationManagementClient = (\<lambda>s. Inr ()),
      role_assignments_create = (\<lambda>s n p. Inr \<lparr>role_assignment_id = ''ra-1''\<rparr>),
      environments_create_or_update =
        (\<lambda>e. Inr \<lparr>registered_version =
           (if env_name e = ''gcc-env'' then ''7''
            else if env_name e = ''onnx2c-env'' then ''3'' else ''12'')\<rparr>),
      jobs_create_or_update = (\<lambda>p. Inr \<lparr>job_name = ''job-1''\<rparr>)\<rparr>"

text \<open>The sample deployment with a given answer to the creation of the role assignment.\<close>

definition with_role_answer :: "exn + RoleAssignment \<Rightarrow> world" where
  "with_role_answer a = sample_world\<lparr>role_assignments_create := (\<lambda>s n p. a)\<rparr>"

subsection \<open>Propagation of exceptions\<close>

text \<open>
  A run propagates exceptions when every raise in its trace that the \<open>except\<close> clause
  does not catch is the last thing that happened and is the result of the run.
\<close>

definition propagates :: "'a io \<Rightarrow> bool" where
  "propagates m =
     (\<forall>pre c e post. fst m = pre @ Raised c e # post \<longrightarrow> \<not> handled c e \<longrightarrow>
        post = [] \<and> snd m = Inl e)"

section \<open>Sequencing lemmas\<close>

lemma io_bind_Inr [simp]: "io_bind (t, Inr x) f = (t @ fst (f x), snd (f x))"
  by (simp add: io_bind_def split: prod.splits)

lemma io_bind_Inl [simp]: "io_bind (t, Inl e) f = (t, Inl e)"
  by (simp add: io_bind_def)

lemma io_bind_print [simp]: "io_bind (print s) f = (Print s # fst (f ()), snd (f ()))"
  by (simp add: print_def)

lemma io_bind_return [simp]: "io_bind (io_return x) f = f x"
  by (simp add: io_return_def)

lemma io_bind_raise [simp]: "io_bind (io_raise e) f = ([], Inl e)"
  by (simp add: io_raise_def)

lemma io_bind_eq_Inr:
  "io_bind m f = (t, Inr y) \<longleftrightarrow> (\<exists>t1 x t2. m = (t1, Inr x) \<and> f x = (t2, Inr y) \<and> t = t1 @ t2)"
  by (cases m; cases "snd m") (auto simp: io_bind_def split: prod.splits sum.splits)

lemma fst_io_bind:
  "fst (io_bind m f) = (case snd m of Inl e \<Rightarrow> fst m | Inr x \<Rightarrow> fst m @ fst (f x))"
  by (cases m; cases "snd m") (auto simp: io_bind_def split: prod.splits sum.splits)

lemma snd_io_bind:
  "snd (io_bind m f) = (case snd m of Inl e \<Rightarrow> Inl e | Inr x \<Rightarrow> snd (f x))"
  by (cases m; cases "snd m") (auto simp: io_bind_def split: prod.splits sum.splits)

section \<open>Traces of the parts of the script\<close>

lemma invoke_Inr [simp]: "invoke c (Inr v) = ([Returned c], Inr v)"
  by (simp add: invoke_def)

lemma invoke_Inl [simp]: "invoke c (Inl e) = ([Raised c e], Inl e)"
  by (simp add: invoke_def)

lemma calls_simps [simp]:
  "calls [] = []"
  "calls (Print s # t) = calls t"
  "calls (Returned c # t) = c # calls t"
  "calls (Raised c e # t) = c # calls t"
  by (simp_all add: calls_def List.map_filter_simps)

lemma calls_append [simp]: "calls (t @ t') = calls t @ calls t'"
  by (simp add: calls_def List.map_filter_def)

lemma remote_calls_simps [simp]:
  "remote_calls [] = []"
  "remote_calls (Print s # t) = remote_calls t"
  "remote_calls (Returned c # t) = (if client_constructor c then remote_calls t else c # remote_calls t)"
  "remote_calls (Raised c e # t) = (if client_constructor c then remote_calls t else c # remote_calls t)"
  by (simp_all add: remote_calls_def)

lemma remote_calls_append [simp]: "remote_calls (t @ t') = remote_calls t @ remote_calls t'"
  by (simp add: remote_calls_def)

lemma print_missing_eq: "print_missing ds = (map (\<lambda>d. Print ('' - '' @ d)) ds, Inr ())"
  by (induction ds) (simp_all add: io_return_def)

lemma check_directories_eq:
  "check_directories w =
     (if missing_directories w = [] then ([Print ''All required directories are present.''], Inr ())
      else (Print ''The following required directories are missing:''
              # map (\<lambda>d. Print ('' - '' @ d)) (missing_directories w),
            Inl (FileNotFoundError
              ''One or more required directories are missing. Please create them and try again.'')))"
  by (simp add: check_directories_def print_missing_eq print_def io_raise_def)

lemma remote_calls_connect: "remote_calls (fst (connect w)) = []"
  by (simp add: connect_def os_environ_def invoke_def io_return_def io_raise_def
        split: sum.splits option.splits)

lemma remote_calls_map_Print [simp]: "remote_calls (map (\<lambda>d. Print (f d)) ds) = []"
  by (induction ds) simp_all

lemma io_bind_extends: "\<exists>t' r'. io_bind m f = (fst m @ t', r')"
  by (cases m; cases "snd m") (auto simp: io_bind_def split: prod.splits sum.splits)

lemma create_compute_starts:
  "\<exists>t r. create_compute w = (Print ''Creating compute cluster...'' # t, r)
         \<and> calls (take 1 t) = [Compute_List]"
  by (cases "compute_list w") (simp_all add: create_compute_def)

lemma main_proceeds:
  assumes "connect w = (t0, Inr ())" and "missing_directories w = []"
  shows "\<exists>t r. main w =
           (t0 @ [Print ''All required directories are present.'',
                  Print ''Creating compute cluster...''] @ t, r)
         \<and> calls (take 1 t) = [Compute_List]"
proof -
  obtain t1 r1 where cc: "create_compute w = (Print ''Creating compute cluster...'' # t1, r1)"
    and first: "calls (take 1 t1) = [Compute_List]"
    using create_compute_starts by blast
  obtain t2 r2 where "io_bind (create_compute w) (\<lambda>principal_id.
     io_bind (assign_role w principal_id) (\<lambda>_.
     io_bind (create_environments w) (\<lambda>latest_envs.
     io_bind (define_components latest_envs) (\<lambda>components.
     io_return (nn_pipeline components))))) = (fst (create_compute w) @ t2, r2)"
    using io_bind_extends by blast
  with assms cc have p: "provision w =
      (t0 @ Print ''All required directories are present.''
          # Print ''Creating compute cluster...'' # t1 @ t2, r2)"
    by (simp add: provision_def check_directories_eq)
  obtain t3 r3 where "main w = (fst (provision w) @ t3, r3)"
    unfolding main_def using io_bind_extends by blast
  with p have "main w =
      (t0 @ [Print ''All required directories are present.'',
             Print ''Creating compute cluster...''] @ (t1 @ t2 @ t3), r3)"
    by simp
  moreover have "calls (take 1 (t1 @ t2 @ t3)) = [Compute_List]"
    using first by (cases t1) simp_all
  ultimately show ?thesis by blast
qed

lemma connect_sample_world:
  "connect (sample_world\<lparr>filesystem := fs\<rparr>) =
     ([Returned Default_Azure_Credential, Returned (ML_Client ''sub-1'' ''rg-1'' ''ws-1'')], Inr ())"
  by (simp add: connect_def sample_world_def os_environ_def)

subsection \<open>What each part of the script calls\<close>

lemma creations_simps [simp]:
  "creations [] = []"
  "creations (Print s # t) = creations t"
  "creations (Returned c # t) = (case creation c of None \<Rightarrow> creations t | Some a \<Rightarrow> a # creations t)"
  "creations (Raised c e # t) = (case creation c of None \<Rightarrow> creations t | Some a \<Rightarrow> a # creations t)"
  "creations (t @ t') = creations t @ creations t'"
  by (simp_all add: creations_def List.map_filter_def split: option.splits)

lemma registrations_simps [simp]:
  "registrations [] = []"
  "registrations (Print s # t) = registrations t"
  "registrations (Returned c # t) =
     (case registration c of None \<Rightarrow> registrations t | Some a \<Rightarrow> a # registrations t)"
  "registrations (Raised c e # t) =
     (case registration c of None \<Rightarrow> registrations t | Some a \<Rightarrow> a # registrations t)"
  "registrations (t @ t') = registrations t @ registrations t'"
  by (simp_all add: registrations_def List.map_filter_def split: option.splits)

lemma submissions_simps [simp]:
  "submissions [] = []"
  "submissions (Print s # t) = submissions t"
  "submissions (Returned c # t) =
     (case submission c of None \<Rightarrow> submissions t | Some a \<Rightarrow> a # submissions t)"
  "submissions (Raised c e # t) =
     (case submission c of None \<Rightarrow> submissions t | Some a \<Rightarrow> a # submissions t)"
  "submissions (t @ t') = submissions t @ submissions t'"
  by (simp_all add: submissions_def List.map_filter_def split: option.splits)

lemma connect_quiet [simp]:
  "creations (fst (connect w)) = []"
  "registrations (fst (connect w)) = []"
  "submissions (fst (connect w)) = []"
  by (simp_all add: connect_def os_environ_def invoke_def io_return_def io_raise_def
        split: sum.splits option.splits)

lemma check_directories_quiet [simp]:
  "creations (fst (check_directories w)) = []"
  "registrations (fst (check_directories w)) = []"
  "submissions (fst (check_directories w)) = []"
  by (induction "missing_directories w") (simp_all add: check_directories_eq creations_def registrations_def submissions_def calls_def List.map_filter_def)

lemma observed_io_bind:
  "creations (fst (io_bind m f)) =
     creations (fst m) @ (case snd m of Inl e \<Rightarrow> [] | Inr x \<Rightarrow> creations (fst (f x)))"
  "registrations (fst (io_bind m f)) =
     registrations (fst m) @ (case snd m of Inl e \<Rightarrow> [] | Inr x \<Rightarrow> registrations (fst (f x)))"
  "submissions (fst (io_bind m f)) =
     submissions (fst m) @ (case snd m of Inl e \<Rightarrow> [] | Inr x \<Rightarrow> submissions (fst (f x)))"
  by (simp_all add: fst_io_bind split: sum.splits)

lemma create_compute_creations:
  "creations (fst (create_compute w)) =
     (case compute_list w of
        Inl e \<Rightarrow> []
      | Inr cs \<Rightarrow> if ''cpu-cluster'' \<in> set (map compute_name cs) then [] else [compute_cluster])"
  by (simp add: create_compute_def read_principal_id_def invoke_def print_def io_return_def
        io_raise_def split: sum.splits option.splits)

lemma create_compute_quiet [simp]:
  "registrations (fst (create_compute w)) = []"
  "submissions (fst (create_compute w)) = []"
  by (simp_all add: create_compute_def read_principal_id_def invoke_def print_def io_return_def
        io_raise_def split: sum.splits option.splits)

lemma quiet_bind:
  "creations (fst m) = [] \<Longrightarrow> (\<And>x. creations (fst (f x)) = []) \<Longrightarrow>
     creations (fst (io_bind m f)) = []"
  "registrations (fst m) = [] \<Longrightarrow> (\<And>x. registrations (fst (f x)) = []) \<Longrightarrow>
     registrations (fst (io_bind m f)) = []"
  "submissions (fst m) = [] \<Longrightarrow> (\<And>x. submissions (fst (f x)) = []) \<Longrightarrow>
     submissions (fst (io_bind m f)) = []"
  by (simp_all add: observed_io_bind split: sum.splits)

lemma invoke_observed [simp]:
  "creations (fst (invoke c a)) = (case creation c of None \<Rightarrow> [] | Some x \<Rightarrow> [x])"
  "registrations (fst (invoke c a)) = (case registration c of None \<Rightarrow> [] | Some x \<Rightarrow> [x])"
  "submissions (fst (invoke c a)) = (case submission c of None \<Rightarrow> [] | Some x \<Rightarrow> [x])"
  by (simp_all add: invoke_def split: sum.splits option.splits)

lemma basic_quiet [simp]:
  "creations (fst (print s)) = []"
  "registrations (fst (print s)) = []"
  "submissions (fst (print s)) = []"
  "creations (fst (io_return x)) = []"
  "registrations (fst (io_return x)) = []"
  "submissions (fst (io_return x)) = []"
  "creations (fst (io_raise e)) = []"
  "registrations (fst (io_raise e)) = []"
  "submissions (fst (io_raise e)) = []"
  "creations (fst (os_environ w k)) = []"
  "registrations (fst (os_environ w k)) = []"
  "submissions (fst (os_environ w k)) = []"
  by (simp_all add: print_def io_return_def io_raise_def os_environ_def split: option.splits)

lemma prepare_role_assignment_quiet [simp]:
  "creations (fst (prepare_role_assignment w pid)) = []"
  "registrations (fst (prepare_role_assignment w pid)) = []"
  "submissions (fst (prepare_role_assignment w pid)) = []"
  unfolding prepare_role_assignment_def by (intro quiet_bind; simp)+

lemma create_role_assignment_quiet [simp]:
  "creations (fst (create_role_assignment w scope name params)) = []"
  "registrations (fst (create_role_assignment w scope name params)) = []"
  "submissions (fst (create_role_assignment w scope name params)) = []"
  by (cases "role_assignments_create w scope name params";
      simp add: create_role_assignment_def try_except_ResourceExistsError_def print_def
        split: exn.splits)+

lemma assign_role_quiet [simp]:
  "creations (fst (assign_role w pid)) = []"
  "registrations (fst (assign_role w pid)) = []"
  "submissions (fst (assign_role w pid)) = []"
  unfolding assign_role_def by (intro quiet_bind; simp add: split_beta)+

lemma register_environments_creations [simp]:
  "creations (fst (register_environments w cfgs envs)) = []"
proof (induction cfgs arbitrary: envs)
  case Nil
  show ?case by simp
next
  case (Cons cfg rest)
  obtain name dir description where cfg: "cfg = (name, dir, description)"
    by (cases cfg)
  show ?case unfolding cfg
    by (simp add: Let_def) (intro quiet_bind; simp add: Cons.IH)+
qed

lemma register_environments_submissions [simp]:
  "submissions (fst (register_environments w cfgs envs)) = []"
proof (induction cfgs arbitrary: envs)
  case Nil
  show ?case by simp
next
  case (Cons cfg rest)
  obtain name dir description where cfg: "cfg = (name, dir, description)"
    by (cases cfg)
  show ?case unfolding cfg
    by (simp add: Let_def) (intro quiet_bind; simp add: Cons.IH)+
qed

lemma create_environments_quiet [simp]:
  "creations (fst (create_environments w)) = []"
  "submissions (fst (create_environments w)) = []"
  by (simp_all add: create_environments_def)

lemma dict_get_quiet [simp]:
  "creations (fst (dict_get d k)) = []"
  "registrations (fst (dict_get d k)) = []"
  "submissions (fst (dict_get d k)) = []"
  by (simp_all add: dict_get_def split: option.splits)

lemma define_components_quiet [simp]:
  "creations (fst (define_components envs)) = []"
  "registrations (fst (define_components envs)) = []"
  "submissions (fst (define_components envs)) = []"
  unfolding define_components_def by (intro quiet_bind; simp)+

lemma submit_quiet [simp]:
  "creations (fst (submit w p)) = []"
  "registrations (fst (submit w p)) = []"
  by (auto simp: submit_def intro!: quiet_bind)

lemma provision_submissions [simp]: "submissions (fst (provision w)) = []"
  unfolding provision_def by (intro quiet_bind; simp)+

lemma provision_creations:
  "creations (fst (provision w)) =
     (case snd (connect w) of
        Inl e \<Rightarrow> []
      | Inr u \<Rightarrow> (case snd (check_directories w) of
          Inl e \<Rightarrow> []
        | Inr u \<Rightarrow> creations (fst (create_compute w))))"
proof -
  have "creations (fst (io_bind (assign_role w pid) (\<lambda>_.
     io_bind (create_environments w) (\<lambda>latest_envs.
     io_bind (define_components latest_envs) (\<lambda>components.
     io_return (nn_pipeline components)))))) = []" for pid
    by (intro quiet_bind; simp)+
  then show ?thesis
    by (simp add: provision_def observed_io_bind split: sum.splits)
qed

lemma main_creations: "creations (fst (main w)) = creations (fst (provision w))"
  by (simp add: main_def observed_io_bind split: sum.splits)

lemma main_registrations: "registrations (fst (main w)) = registrations (fst (provision w))"
  by (simp add: main_def observed_io_bind split: sum.splits)

subsection \<open>The sample deployment, run\<close>

lemma provision_sample_world:
  "provision sample_world =
    ([Returned Default_Azure_Credential,
      Returned (ML_Client ''sub-1'' ''rg-1'' ''ws-1''),
      Print ''All required directories are present.'',
      Print ''Creating compute cluster...'',
      Returned Compute_List,
      Returned (Compute_Begin_Create_Or_Update compute_cluster),
      Print ''Compute cluster created.'',
      Returned (Compute_Get ''cpu-cluster''),
      Print ''Compute cluster identity principal ID: principal-1'',
      Returned (Datastores_Get ''workspaceblobstore''),
      Returned Default_Azure_Credential,
      Returned (Authorization_Management_Client ''sub-1''),
      Returned (Role_Assignments_Create
        ''/subscriptions/sub-1/resourceGroups/rg-1/providers/Microsoft.Storage/storageAccounts/storage1''
        ''0f8fad5b-d9cb-469f-a165-70867728950e''
        \<lparr>role_definition_id =
           ''/subscriptions/sub-1/providers/Microsoft.Authorization/roleDefinitions/ba92f5b4-2d11-453d-a403-e96b0029c9fe'',
         param_principal_id = ''principal-1'',
         principal_type = ''ServicePrincipal''\<rparr>),
      Print ''Role assignment created: ra-1'',
      Print ''Creating environments...'',
      Returned (Environments_Create_Or_Update
        \<lparr>env_name = ''pytorch-onnx-env'',
         env_description = ''Environment for PyTorch training and ONNX export'',
         env_build_path = ''environments/pytorch''\<rparr>),
      Print ''Environment pytorch-onnx-env created/updated with version 12'',
      Returned (Environments_Create_Or_Update
        \<lparr>env_name = ''onnx2c-env'',
         env_description = ''Environment for ONNX to C conversion'',
         env_build_path = ''environments/onnx2c''\<rparr>),
      Print ''Environment onnx2c-env created/updated with version 3'',
      Returned (Environments_Create_Or_Update
        \<lparr>env_name = ''gcc-env'',
         env_description = ''Environment for C compilation and testing'',
         env_build_path = ''environments/gcc''\<rparr>),
      Print ''Environment gcc-env created/updated with version 7'',
      Print ''Creating pipeline components...''],
     Inr (nn_pipeline (train_pytorch_model ''pytorch-onnx-env:12'',
                       convert_onnx_to_c ''onnx2c-env:3'',
                       compile_and_test ''gcc-env:7'',
                       build_minimal_binary ''gcc-env:7'')))"
  by (simp add: provision_def connect_def check_directories_eq missing_directories_def
        directories_def os_path_exists_def create_compute_def read_principal_id_def
        assign_role_def prepare_role_assignment_def create_role_assignment_def
        try_except_ResourceExistsError_def create_environments_def env_configs_def
        define_components_def dict_get_def os_environ_def sample_world_def
        print_def io_return_def)

lemma main_sample_world:
  "main sample_world =
    ([Returned Default_Azure_Credential,
      Returned (ML_Client ''sub-1'' ''rg-1'' ''ws-1''),
      Print ''All required directories are present.'',
      Print ''Creating compute cluster...'',
      Returned Compute_List,
      Returned (Compute_Begin_Create_Or_Update compute_cluster),
      Print ''Compute cluster created.'',
      Returned (Compute_Get ''cpu-cluster''),
      Print ''Compute cluster identity principal ID: principal-1'',
      Returned (Datastores_Get ''workspaceblobstore''),
      Returned Default_Azure_Credential,
      Returned (Authorization_Management_Client ''sub-1''),
      Returned (Role_Assignments_Create
        ''/subscriptions/sub-1/resourceGroups/rg-1/providers/Microsoft.Storage/storageAccounts/storage1''
        ''0f8fad5b-d9cb-469f-a165-70867728950e''
        \<lparr>role_definition_id =
           ''/subscriptions/sub-1/providers/Microsoft.Authorization/roleDefinitions/ba92f5b4-2d11-453d-a403-e96b0029c9fe'',
         param_principal_id = ''principal-1'',
         principal_type = ''ServicePrincipal''\<rparr>),
      Print ''Role assignment created: ra-1'',
      Print ''Creating environments...'',
      Returned (Environments_Create_Or_Update
        \<lparr>env_name = ''pytorch-onnx-env'',
         env_description = ''Environment for PyTorch training and ONNX export'',
         env_build_path = ''environments/pytorch''\<rparr>),
      Print ''Environment pytorch-onnx-env created/updated with version 12'',
      Returned (Environments_Create_Or_Update
        \<lparr>env_name = ''onnx2c-env'',
         env_description = ''Environment for ONNX to C conversion'',
         env_build_path = ''environments/onnx2c''\<rparr>),
      Print ''Environment onnx2c-env created/updated with version 3'',
      Returned (Environments_Create_Or_Update
        \<lparr>env_name = ''gcc-env'',
         env_description = ''Environment for C compilation and testing'',
         env_build_path = ''environments/gcc''\<rparr>),
      Print ''Environment gcc-env created/updated with version 7'',
      Print ''Creating pipeline components...'',
      Print (CHR 0x0A # ''Setup complete! Pipeline is ready to be submitted.''),
      Print ''Run the pipeline with the --run flag to execute it.''],
     Inr (nn_pipeline (train_pytorch_model ''pytorch-onnx-env:12'',
                       convert_onnx_to_c ''onnx2c-env:3'',
                       compile_and_test ''gcc-env:7'',
                       build_minimal_binary ''gcc-env:7'')))"
  by (simp add: main_def provision_def connect_def check_directories_eq missing_directories_def
        directories_def os_path_exists_def create_compute_def read_principal_id_def
        assign_role_def prepare_role_assignment_def create_role_assignment_def
        try_except_ResourceExistsError_def create_environments_def env_configs_def
        define_components_def dict_get_def submit_def os_environ_def sample_world_def
        print_def io_return_def)

lemma args_run_unread:
  "connect (w\<lparr>args_run := b\<rparr>) = connect w"
  "check_directories (w\<lparr>args_run := b\<rparr>) = check_directories w"
  "create_compute (w\<lparr>args_run := b\<rparr>) = create_compute w"
  "assign_role (w\<lparr>args_run := b\<rparr>) pid = assign_role w pid"
  by (simp_all add: connect_def check_directories_def missing_directories_def
        create_compute_def assign_role_def prepare_role_assignment_def
        create_role_assignment_def os_environ_def cong: if_cong)

lemma register_environments_args_run:
  "register_environments (w\<lparr>args_run := b\<rparr>) cfgs = register_environments w cfgs"
proof (induction cfgs)
  case Nil
  show ?case by (rule ext) simp
next
  case (Cons cfg rest)
  obtain name dir description where cfg: "cfg = (name, dir, description)"
    by (cases cfg)
  show ?case unfolding cfg by (rule ext) (simp add: Cons.IH)
qed

lemma provision_args_run: "provision (w\<lparr>args_run := b\<rparr>) = provision w"
  by (simp add: provision_def args_run_unread create_environments_def
        register_environments_args_run)

lemma create_environments_Inr:
  assumes "create_environments w = (t, Inr latest_envs)"
  shows "\<exists>v1 v2 v3.
      environments_create_or_update w
        \<lparr>env_name = ''pytorch-onnx-env'',
         env_description = ''Environment for PyTorch training and ONNX export'',
         env_build_path = ''environments/pytorch''\<rparr> = Inr v1
    \<and> environments_create_or_update w
        \<lparr>env_name = ''onnx2c-env'',
         env_description = ''Environment for ONNX to C conversion'',
         env_build_path = ''environments/onnx2c''\<rparr> = Inr v2
    \<and> environments_create_or_update w
        \<lparr>env_name = ''gcc-env'',
         env_description = ''Environment for C compilation and testing'',
         env_build_path = ''environments/gcc''\<rparr> = Inr v3
    \<and> registrations t =
        [\<lparr>env_name = ''pytorch-onnx-env'',
          env_description = ''Environment for PyTorch training and ONNX export'',
          env_build_path = ''environments/pytorch''\<rparr>,
         \<lparr>env_name = ''onnx2c-env'',
          env_description = ''Environment for ONNX to C conversion'',
          env_build_path = ''environments/onnx2c''\<rparr>,
         \<lparr>env_name = ''gcc-env'',
          env_description = ''Environment for C compilation and testing'',
          env_build_path = ''environments/gcc''\<rparr>]
    \<and> latest_envs ''pytorch-onnx-env'' = Some (''pytorch-onnx-env:'' @ registered_version v1)
    \<and> latest_envs ''onnx2c-env'' = Some (''onnx2c-env:'' @ registered_version v2)
    \<and> latest_envs ''gcc-env'' = Some (''gcc-env:'' @ registered_version v3)"
  using assms
  by (auto simp: create_environments_def env_configs_def Let_def invoke_def io_return_def
        split: sum.splits)

lemma provision_Inr:
  assumes "provision w = (t, Inr p)"
  shows "\<exists>t1 t2 t3 pid t4 t5 latest_envs t6 components.
      connect w = (t1, Inr ()) \<and> check_directories w = (t2, Inr ())
    \<and> create_compute w = (t3, Inr pid) \<and> assign_role w pid = (t4, Inr ())
    \<and> create_environments w = (t5, Inr latest_envs)
    \<and> define_components latest_envs = (t6, Inr components)
    \<and> p = nn_pipeline components \<and> t = t1 @ t2 @ t3 @ t4 @ t5 @ t6"
  using assms by (auto simp: provision_def io_bind_eq_Inr io_return_def)

lemma quiet_parts:
  "connect w = (t1, r1) \<Longrightarrow> registrations t1 = []"
  "check_directories w = (t2, r2) \<Longrightarrow> registrations t2 = []"
  "create_compute w = (t3, r3) \<Longrightarrow> registrations t3 = []"
  "assign_role w pid = (t4, r4) \<Longrightarrow> registrations t4 = []"
  "define_components envs = (t6, r6) \<Longrightarrow> registrations t6 = []"
  using connect_quiet(2) [of w] check_directories_quiet(2) [of w] create_compute_quiet(1) [of w]
    assign_role_quiet(2) [of w pid] define_components_quiet(2) [of envs]
  by simp_all

lemma create_environments_returns:
  assumes "\<forall>cfg \<in> set env_configs. \<exists>v. environments_create_or_update w
             (case cfg of (name, dir, description) \<Rightarrow>
                \<lparr>env_name = name, env_description = description, env_build_path = dir\<rparr>) = Inr v"
  shows "\<exists>t latest_envs. create_environments w = (t, Inr latest_envs)
           \<and> (\<exists>components. define_components latest_envs
                 = ([Print ''Creating pipeline components...''], Inr components))"
  using assms
  by (auto simp: create_environments_def env_configs_def Let_def define_components_def
        dict_get_def io_return_def)

lemma phases_with_role_answer:
  "connect (with_role_answer a) =
     ([Returned Default_Azure_Credential, Returned (ML_Client ''sub-1'' ''rg-1'' ''ws-1'')], Inr ())"
  "check_directories (with_role_answer a) =
     ([Print ''All required directories are present.''], Inr ())"
  "create_compute (with_role_answer a) =
     ([Print ''Creating compute cluster...'',
       Returned Compute_List,
       Returned (Compute_Begin_Create_Or_Update compute_cluster),
       Print ''Compute cluster created.'',
       Returned (Compute_Get ''cpu-cluster''),
       Print ''Compute cluster identity principal ID: principal-1''], Inr ''principal-1'')"
  "prepare_role_assignment (with_role_answer a) ''principal-1'' =
     ([Returned (Datastores_Get ''workspaceblobstore''),
       Returned Default_Azure_Credential,
       Returned (Authorization_Management_Client ''sub-1'')],
      Inr (''/subscriptions/sub-1/resourceGroups/rg-1/providers/Microsoft.Storage/storageAccounts/storage1'',
           ''0f8fad5b-d9cb-469f-a165-70867728950e'',
           \<lparr>role_definition_id =
              ''/subscriptions/sub-1/providers/Microsoft.Authorization/roleDefinitions/ba92f5b4-2d11-453d-a403-e96b0029c9fe'',
            param_principal_id = ''principal-1'',
            principal_type = ''ServicePrincipal''\<rparr>))"
  by (simp_all add: with_role_answer_def connect_def check_directories_eq missing_directories_def
        directories_def os_path_exists_def create_compute_def read_principal_id_def
        prepare_role_assignment_def os_environ_def sample_world_def print_def io_return_def)

lemma environments_with_role_answer:
  "\<forall>cfg \<in> set env_configs. \<exists>v. environments_create_or_update (with_role_answer a)
           (case cfg of (name, dir, description) \<Rightarrow>
              \<lparr>env_name = name, env_description = description, env_build_path = dir\<rparr>) = Inr v"
  by (simp add: with_role_answer_def sample_world_def)

subsection \<open>Every part of the script propagates exceptions\<close>

lemma propagates_silent:
  "\<forall>c e. Raised c e \<notin> set (fst m) \<Longrightarrow> propagates m"
  unfolding propagates_def by (metis in_set_conv_decomp)

lemma propagates_if:
  "propagates a \<Longrightarrow> propagates b \<Longrightarrow> propagates (if c then a else b)"
  by simp

lemma propagates_basic [simp]:
  "propagates (io_return x)"
  "propagates (io_raise e)"
  "propagates (print s)"
  "propagates (os_environ w k)"
  "propagates (dict_get d k)"
  by (rule propagates_silent;
      simp add: io_return_def io_raise_def print_def os_environ_def dict_get_def
        split: option.splits)+

lemma propagates_invoke [simp]: "propagates (invoke c a)"
  by (cases a) (auto simp: propagates_def Cons_eq_append_conv)

lemma propagates_bind:
  assumes "propagates m" and "\<And>x. propagates (f x)"
  shows "propagates (io_bind m f)"
proof (cases m)
  case (Pair t r)
  show ?thesis
  proof (cases r)
    case (Inl e)
    with Pair assms(1) show ?thesis by (simp add: propagates_def)
  next
    case (Inr x)
    obtain t' r' where fx: "f x = (t', r')" by (cases "f x")
    have "post = [] \<and> r' = Inl e"
      if eq: "t @ t' = pre @ Raised c e # post" and un: "\<not> handled c e" for pre c e post
    proof -
      from eq consider us where "t = pre @ us" "us @ t' = Raised c e # post"
        | us where "t @ us = pre" "t' = us @ Raised c e # post"
        by (auto simp: append_eq_append_conv2)
      then show ?thesis
      proof cases
        case 1
        show ?thesis
        proof (cases us)
          case Nil
          with 1 have "t' = [] @ Raised c e # post" by simp
          with assms(2) [of x] fx un show ?thesis
            unfolding propagates_def by (metis fst_conv snd_conv)
        next
          case (Cons u us')
          with 1 have "t = pre @ Raised c e # us'" by simp
          with assms(1) Pair Inr un have False
            unfolding propagates_def by (metis fst_conv snd_conv sum.distinct(1))
          then show ?thesis ..
        qed
      next
        case 2
        with assms(2) [of x] fx un show ?thesis
          unfolding propagates_def by (metis fst_conv snd_conv)
      qed
    qed
    with Pair Inr fx show ?thesis by (simp add: propagates_def)
  qed
qed

lemma propagates_create_role_assignment [simp]:
  "propagates (create_role_assignment w scope name params)"
  by (cases "role_assignments_create w scope name params")
     (auto simp: propagates_def create_role_assignment_def try_except_ResourceExistsError_def
        print_def Cons_eq_append_conv split: exn.splits)

lemma propagates_connect [simp]: "propagates (connect w)"
  unfolding connect_def by (intro propagates_bind; simp)+

lemma propagates_print_missing [simp]: "propagates (print_missing ds)"
  by (rule propagates_silent) (simp add: print_missing_eq image_iff)

lemma propagates_check_directories [simp]: "propagates (check_directories w)"
  by (rule propagates_silent) (simp add: check_directories_eq image_iff)

lemma propagates_read_principal_id [simp]: "propagates (read_principal_id c)"
  by (simp add: read_principal_id_def split: option.splits)

lemma propagates_create_compute [simp]: "propagates (create_compute w)"
  unfolding create_compute_def by (intro propagates_bind propagates_if; simp)+

lemma propagates_prepare_role_assignment [simp]: "propagates (prepare_role_assignment w pid)"
  unfolding prepare_role_assignment_def by (intro propagates_bind; simp)+

lemma propagates_assign_role [simp]: "propagates (assign_role w pid)"
  unfolding assign_role_def by (intro propagates_bind; simp add: split_beta)+

lemma propagates_register_environments [simp]:
  "propagates (register_environments w cfgs envs)"
proof (induction cfgs arbitrary: envs)
  case Nil
  show ?case by simp
next
  case (Cons cfg rest)
  obtain name dir description where cfg: "cfg = (name, dir, description)"
    by (cases cfg)
  show ?case unfolding cfg
    by (simp add: Let_def del: io_bind_print) (intro propagates_bind; simp add: Cons.IH)+
qed

lemma propagates_create_environments [simp]: "propagates (create_environments w)"
  unfolding create_environments_def by (intro propagates_bind; simp)+

lemma propagates_define_components [simp]: "propagates (define_components envs)"
  unfolding define_components_def by (intro propagates_bind; simp)+

lemma propagates_submit [simp]: "propagates (submit w p)"
  unfolding submit_def by (intro propagates_bind propagates_if; simp)+

lemma propagates_provision [simp]: "propagates (provision w)"
  unfolding provision_def by (intro propagates_bind; simp)+

lemma propagates_main: "propagates (main w)"
  unfolding main_def by (intro propagates_bind; simp)+

section \<open>The properties of the script\<close>

text \<open>
  C1. The declared pipeline has exactly four connections: the output \<open>output_dir\<close> of
  the training step feeds the input \<open>model_dir\<close> of the conversion step and the input
  \<open>model_dir\<close> of the compile/test step, and the output \<open>output_dir\<close> of the conversion
  step feeds the input \<open>c_code_dir\<close> of the compile/test step and of the minimal-binary
  step. The second equation says which component each of the four steps runs.
\<close>

theorem nn_pipeline_edges:
  "edges (nn_pipeline (train_pytorch_model e1, convert_onnx_to_c e2,
                       compile_and_test e3, build_minimal_binary e4)) =
     [(''train_step'', ''output_dir'', ''onnx2c_step'', ''model_dir''),
      (''onnx2c_step'', ''output_dir'', ''compile_step'', ''c_code_dir''),
      (''train_step'', ''output_dir'', ''compile_step'', ''model_dir''),
      (''onnx2c_step'', ''output_dir'', ''binary_step'', ''c_code_dir'')]
   \<and> map (\<lambda>s. (step_name s, cmd_name (step_component s)))
         (pipeline_steps (nn_pipeline (train_pytorch_model e1, convert_onnx_to_c e2,
                                       compile_and_test e3, build_minimal_binary e4))) =
     [(''train_step'', ''pytorch_train''),
      (''onnx2c_step'', ''onnx2c''),
      (''compile_step'', ''compile_and_test''),
      (''binary_step'', ''build_minimal'')]"
  by (simp add: edges_def step_edges_def nn_pipeline_def instantiate_def outputs_def
        train_pytorch_model_def convert_onnx_to_c_def compile_and_test_def
        build_minimal_binary_def)

text \<open>
  C2. The absent paths are the required paths that do not exist. Whenever one is
  absent, the run ends in an exception and has made no call other than the
  construction of the credential and of the workspace client. When the client was
  constructed (\<open>connect\<close> returned), the run prints the heading and one line for each
  absent path, in the order of the list, raises \<open>FileNotFoundError\<close>, and does nothing
  else. When the client was constructed and no path is absent, the run prints that
  all directories are present and goes on to provisioning: its next call is the
  listing of the computes.
\<close>

theorem missing_directories_abort:
  "missing_directories w = filter (\<lambda>d. filesystem w d = None) directories
   \<and> (missing_directories w \<noteq> [] \<longrightarrow>
        (\<exists>e. snd (main w) = Inl e) \<and> remote_calls (fst (main w)) = [])
   \<and> (connect w = (t0, Inr ()) \<and> missing_directories w \<noteq> [] \<longrightarrow>
        main w =
          (t0 @ Print ''The following required directories are missing:''
                # map (\<lambda>d. Print ('' - '' @ d)) (missing_directories w),
           Inl (FileNotFoundError
             ''One or more required directories are missing. Please create them and try again.'')))
   \<and> (connect w = (t0, Inr ()) \<and> missing_directories w = [] \<longrightarrow>
        (\<exists>t r. main w =
           (t0 @ [Print ''All required directories are present.'',
                  Print ''Creating compute cluster...''] @ t, r)
         \<and> calls (take 1 t) = [Compute_List]))"
proof (intro conjI impI)
  show "missing_directories w = filter (\<lambda>d. filesystem w d = None) directories"
    by (simp add: missing_directories_def os_path_exists_def)
next
  assume miss: "missing_directories w \<noteq> []"
  obtain t r where c: "connect w = (t, r)" by (cases "connect w")
  have rc: "remote_calls t = []" using remote_calls_connect [of w] c by simp
  show "\<exists>e. snd (main w) = Inl e"
    using miss c by (cases r) (simp_all add: main_def provision_def check_directories_eq)
  show "remote_calls (fst (main w)) = []"
    using miss c rc by (cases r) (simp_all add: main_def provision_def check_directories_eq)
next
  assume "connect w = (t0, Inr ()) \<and> missing_directories w \<noteq> []"
  then show "main w =
          (t0 @ Print ''The following required directories are missing:''
                # map (\<lambda>d. Print ('' - '' @ d)) (missing_directories w),
           Inl (FileNotFoundError
             ''One or more required directories are missing. Please create them and try again.''))"
    by (simp add: main_def provision_def check_directories_eq)
next
  assume "connect w = (t0, Inr ()) \<and> missing_directories w = []"
  then show "\<exists>t r. main w =
           (t0 @ [Print ''All required directories are present.'',
                  Print ''Creating compute cluster...''] @ t, r)
         \<and> calls (take 1 t) = [Compute_List]"
    using main_proceeds by blast
qed

theorem missing_directories_abort_witness:
  "missing_directories
     (sample_world\<lparr>filesystem :=
        [''environments/pytorch'' \<mapsto> Directory, ''environments/gcc'' \<mapsto> Directory,
         ''src/pytorch_train'' \<mapsto> Directory, ''src/onnx2c'' \<mapsto> Directory,
         ''src/compile_test'' \<mapsto> Directory]\<rparr>)
     = [''environments/onnx2c'', ''src/minimal_binary'']
   \<and> main
     (sample_world\<lparr>filesystem :=
        [''environments/pytorch'' \<mapsto> Directory, ''environments/gcc'' \<mapsto> Directory,
         ''src/pytorch_train'' \<mapsto> Directory, ''src/onnx2c'' \<mapsto> Directory,
         ''src/compile_test'' \<mapsto> Directory]\<rparr>)
     = ([Returned Default_Azure_Credential,
         Returned (ML_Client ''sub-1'' ''rg-1'' ''ws-1''),
         Print ''The following required directories are missing:'',
         Print '' - environments/onnx2c'',
         Print '' - src/minimal_binary''],
        Inl (FileNotFoundError
          ''One or more required directories are missing. Please create them and try again.''))
   \<and> remote_calls (fst (main
     (sample_world\<lparr>filesystem :=
        [''environments/pytorch'' \<mapsto> Directory, ''environments/gcc'' \<mapsto> Directory,
         ''src/pytorch_train'' \<mapsto> Directory, ''src/onnx2c'' \<mapsto> Directory,
         ''src/compile_test'' \<mapsto> Directory]\<rparr>))) = []
   \<and> missing_directories sample_world = []
   \<and> (\<exists>t r. main sample_world =
         ([Returned Default_Azure_Credential,
           Returned (ML_Client ''sub-1'' ''rg-1'' ''ws-1''),
           Print ''All required directories are present.'',
           Print ''Creating compute cluster...''] @ t, r)
       \<and> calls (take 1 t) = [Compute_List])"
proof -
  let ?fs = "[''environments/pytorch'' \<mapsto> Directory, ''environments/gcc'' \<mapsto> Directory,
         ''src/pytorch_train'' \<mapsto> Directory, ''src/onnx2c'' \<mapsto> Directory,
         ''src/compile_test'' \<mapsto> Directory]"
  let ?w = "sample_world\<lparr>filesystem := ?fs\<rparr>"
  let ?t0 = "[Returned Default_Azure_Credential, Returned (ML_Client ''sub-1'' ''rg-1'' ''ws-1'')]"
  have c1: "connect ?w = (?t0, Inr ())" by (rule connect_sample_world)
  have c2: "connect sample_world = (?t0, Inr ())"
    using connect_sample_world [of "filesystem sample_world"] by simp
  have m1: "missing_directories ?w = [''environments/onnx2c'', ''src/minimal_binary'']"
    by (simp add: missing_directories_def directories_def os_path_exists_def)
  have m2: "missing_directories sample_world = []"
    by (simp add: missing_directories_def directories_def os_path_exists_def sample_world_def)
  show ?thesis
    using missing_directories_abort [of ?w ?t0] missing_directories_abort [of sample_world ?t0]
      c1 c2 m1 m2
    by simp
qed

text \<open>
  C3. Provisioning does not read the flag: it is the same run with and without it. A
  run that submits a job was given the flag. When provisioning has completed and the
  flag was given, the run submits exactly the pipeline it declared, once, and prints
  the job's name if the submission returns; when the flag was not given it submits
  nothing and ends with the two closing lines.
\<close>

theorem submission_follows_flag:
  "provision (w\<lparr>args_run := b\<rparr>) = provision w
   \<and> (submissions (fst (main w)) \<noteq> [] \<longrightarrow> args_run w)
   \<and> (provision w = (t, Inr p) \<and> args_run w \<longrightarrow>
        submissions (fst (main w)) = [p]
      \<and> main w =
          (case jobs_create_or_update w p of
             Inl e \<Rightarrow> (t @ [Raised (Jobs_Create_Or_Update p) e], Inl e)
           | Inr j \<Rightarrow>
               (t @ [Returned (Jobs_Create_Or_Update p),
                     Print (''Pipeline job submitted with ID: '' @ job_name j)], Inr p)))
   \<and> (provision w = (t, Inr p) \<and> \<not> args_run w \<longrightarrow>
        submissions (fst (main w)) = []
      \<and> main w =
          (t @ [Print (CHR 0x0A # ''Setup complete! Pipeline is ready to be submitted.''),
                Print ''Run the pipeline with the --run flag to execute it.''], Inr p))"
proof (intro conjI impI)
  show "provision (w\<lparr>args_run := b\<rparr>) = provision w" by (rule provision_args_run)
next
  assume "submissions (fst (main w)) \<noteq> []"
  then show "args_run w"
    by (cases "args_run w")
       (auto simp: main_def submit_def observed_io_bind print_def split: sum.splits)
next
  assume a: "provision w = (t, Inr p) \<and> args_run w"
  then have t: "submissions t = []" using provision_submissions [of w] by simp
  from a show m: "main w =
          (case jobs_create_or_update w p of
             Inl e \<Rightarrow> (t @ [Raised (Jobs_Create_Or_Update p) e], Inl e)
           | Inr j \<Rightarrow>
               (t @ [Returned (Jobs_Create_Or_Update p),
                     Print (''Pipeline job submitted with ID: '' @ job_name j)], Inr p))"
    by (simp add: main_def submit_def print_def io_return_def split: sum.splits)
  show "submissions (fst (main w)) = [p]"
    unfolding m using t by (simp split: sum.splits)
next
  assume a: "provision w = (t, Inr p) \<and> \<not> args_run w"
  then have t: "submissions t = []" using provision_submissions [of w] by simp
  from a show m: "main w =
          (t @ [Print (CHR 0x0A # ''Setup complete! Pipeline is ready to be submitted.''),
                Print ''Run the pipeline with the --run flag to execute it.''], Inr p)"
    by (simp add: main_def submit_def print_def io_return_def)
  show "submissions (fst (main w)) = []"
    unfolding m using t by simp
qed

theorem submission_follows_flag_witness:
  "args_run (sample_world\<lparr>args_run := True\<rparr>)
   \<and> submissions (fst (main (sample_world\<lparr>args_run := True\<rparr>))) =
       [nn_pipeline (train_pytorch_model ''pytorch-onnx-env:12'',
                     convert_onnx_to_c ''onnx2c-env:3'',
                     compile_and_test ''gcc-env:7'',
                     build_minimal_binary ''gcc-env:7'')]
   \<and> snd (main (sample_world\<lparr>args_run := True\<rparr>)) = snd (main sample_world)
   \<and> last (fst (main (sample_world\<lparr>args_run := True\<rparr>))) =
       Print ''Pipeline job submitted with ID: job-1''
   \<and> args_run sample_world = False
   \<and> submissions (fst (main sample_world)) = []
   \<and> last (fst (main sample_world)) =
       Print ''Run the pipeline with the --run flag to execute it.''"
proof -
  let ?p = "nn_pipeline (train_pytorch_model ''pytorch-onnx-env:12'',
                     convert_onnx_to_c ''onnx2c-env:3'',
                     compile_and_test ''gcc-env:7'',
                     build_minimal_binary ''gcc-env:7'')"
  let ?t = "fst (provision sample_world)"
  have p: "provision sample_world = (?t, Inr ?p)"
    by (simp add: provision_sample_world)
  have f: "args_run sample_world = False" by (simp add: sample_world_def)
  have j: "jobs_create_or_update (sample_world\<lparr>args_run := True\<rparr>) ?p = Inr \<lparr>job_name = ''job-1''\<rparr>"
    by (simp add: sample_world_def)
  note off = submission_follows_flag [where w = sample_world and b = True and t = ?t and p = ?p]
  then have p': "provision (sample_world\<lparr>args_run := True\<rparr>) = (?t, Inr ?p)"
    using p by simp
  note on = submission_follows_flag
    [where w = "sample_world\<lparr>args_run := True\<rparr>" and b = True and t = ?t and p = ?p]
  show ?thesis
    using on off p p' f j by simp
qed

text \<open>
  C4. A run asks for the creation of a compute at most once, the compute it asks for
  is the one named \<open>cpu-cluster\<close>, and it asks only after the listing of the
  workspace's computes returned without that name. A run whose listing contains the
  name asks for no creation; so over a first run and a second run that finds the
  cluster in the listing there is at most one creation.
\<close>

theorem cluster_created_once:
  "aml_name compute_cluster = ''cpu-cluster''
   \<and> (creations (fst (main w)) \<noteq> [] \<longrightarrow>
        creations (fst (main w)) = [compute_cluster]
      \<and> (\<exists>cs. compute_list w = Inr cs \<and> ''cpu-cluster'' \<notin> set (map compute_name cs)))
   \<and> (compute_list w' = Inr cs' \<and> ''cpu-cluster'' \<in> set (map compute_name cs') \<longrightarrow>
        creations (fst (main w')) = []
      \<and> length (creations (fst (main w)) @ creations (fst (main w'))) \<le> 1)"
proof -
  have one: "creations (fst (main w)) = [] \<or> creations (fst (main w)) = [compute_cluster]" for w
    by (simp add: main_creations provision_creations create_compute_creations
          split: sum.splits)
  have only: "\<exists>cs. compute_list w = Inr cs \<and> ''cpu-cluster'' \<notin> set (map compute_name cs)"
    if "creations (fst (main w)) \<noteq> []" for w
    using that
    by (auto simp: main_creations provision_creations create_compute_creations
          split: sum.splits if_splits)
  have none: "creations (fst (main w')) = []"
    if "compute_list w' = Inr cs'" "''cpu-cluster'' \<in> set (map compute_name cs')"
    using that
    by (simp add: main_creations provision_creations create_compute_creations
          split: sum.splits)
  show ?thesis
    using one [of w] only [of w] none by (auto simp: compute_cluster_def)
qed

theorem cluster_created_once_witness:
  "creations (fst (main sample_world)) = [compute_cluster]
   \<and> compute_list sample_world = Inr []
   \<and> compute_list (sample_world\<lparr>compute_list := Inr [\<lparr>compute_name = ''cpu-cluster'',
         compute_identity = Some \<lparr>identity_principal_id = ''principal-1''\<rparr>\<rparr>]\<rparr>)
       = Inr [\<lparr>compute_name = ''cpu-cluster'',
               compute_identity = Some \<lparr>identity_principal_id = ''principal-1''\<rparr>\<rparr>]
   \<and> creations (fst (main (sample_world\<lparr>compute_list := Inr [\<lparr>compute_name = ''cpu-cluster'',
         compute_identity = Some \<lparr>identity_principal_id = ''principal-1''\<rparr>\<rparr>]\<rparr>))) = []
   \<and> length (creations (fst (main sample_world))
         @ creations (fst (main (sample_world\<lparr>compute_list := Inr [\<lparr>compute_name = ''cpu-cluster'',
         compute_identity = Some \<lparr>identity_principal_id = ''principal-1''\<rparr>\<rparr>]\<rparr>)))) = 1"
proof -
  let ?c = "\<lparr>compute_name = ''cpu-cluster'',
         compute_identity = Some \<lparr>identity_principal_id = ''principal-1''\<rparr>\<rparr>"
  let ?w' = "sample_world\<lparr>compute_list := Inr [?c]\<rparr>"
  have 1: "creations (fst (main sample_world)) = [compute_cluster]"
    by (simp add: main_sample_world)
  have 2: "compute_list sample_world = Inr []" by (simp add: sample_world_def)
  have 3: "compute_list ?w' = Inr [?c] \<and> ''cpu-cluster'' \<in> set (map compute_name [?c])"
    by simp
  show ?thesis
    using cluster_created_once [of sample_world ?w' "[?c]"] 1 2 3 by simp
qed

text \<open>
  C5. Take a run that reaches the creation of the role assignment. If the creation
  raises the resource-exists error, the exception is caught: the run prints that the
  assignment already exists and goes on. If the three registrations of environments
  return, then in both cases, the creation returning and the creation raising that
  error, provisioning runs to its end and declares the pipeline; the two runs differ
  only in the line printed after the call.
\<close>

theorem duplicate_role_assignment_tolerated:
  assumes "connect w = (t1, Inr ())"
    and "check_directories w = (t2, Inr ())"
    and "create_compute w = (t3, Inr pid)"
    and "prepare_role_assignment w pid = (t4, Inr (scope, name, params))"
    and "\<forall>cfg \<in> set env_configs. \<exists>v. environments_create_or_update w
           (case cfg of (name, dir, description) \<Rightarrow>
              \<lparr>env_name = name, env_description = description, env_build_path = dir\<rparr>) = Inr v"
  shows "(role_assignments_create w scope name params = Inl (ResourceExistsError m) \<longrightarrow>
            create_role_assignment w scope name params =
              ([Raised (Role_Assignments_Create scope name params) (ResourceExistsError m),
                Print ''Role assignment already exists. Skipping creation.''], Inr ())
          \<and> (\<exists>t p. provision w =
                (t1 @ t2 @ t3 @ t4
                   @ [Raised (Role_Assignments_Create scope name params) (ResourceExistsError m),
                      Print ''Role assignment already exists. Skipping creation.'']
                   @ t, Inr p)
              \<and> registrations t =
                  map (\<lambda>(name, dir, description).
                        \<lparr>env_name = name, env_description = description, env_build_path = dir\<rparr>)
                      env_configs))
       \<and> (role_assignments_create w scope name params = Inr ra \<longrightarrow>
            create_role_assignment w scope name params =
              ([Returned (Role_Assignments_Create scope name params),
                Print (''Role assignment created: '' @ role_assignment_id ra)], Inr ())
          \<and> (\<exists>t p. provision w =
                (t1 @ t2 @ t3 @ t4
                   @ [Returned (Role_Assignments_Create scope name params),
                      Print (''Role assignment created: '' @ role_assignment_id ra)]
                   @ t, Inr p)
              \<and> registrations t =
                  map (\<lambda>(name, dir, description).
                        \<lparr>env_name = name, env_description = description, env_build_path = dir\<rparr>)
                      env_configs))"
proof -
  from create_environments_returns [OF assms(5)] obtain t5 latest_envs components
    where envs: "create_environments w = (t5, Inr latest_envs)"
      and comps: "define_components latest_envs
                 = ([Print ''Creating pipeline components...''], Inr components)"
    by blast
  from create_environments_Inr [OF envs] have r5: "registrations t5 =
      map (\<lambda>(name, dir, description).
             \<lparr>env_name = name, env_description = description, env_build_path = dir\<rparr>)
          env_configs"
    by (auto simp: env_configs_def)
  have rest: "provision w = (t1 @ t2 @ t3 @ t4 @ ev @ (t5 @ [Print ''Creating pipeline components...'']),
                Inr (nn_pipeline components))"
    if "create_role_assignment w scope name params = (ev, Inr ())" for ev
    using assms(1-4) envs comps that
    by (simp add: provision_def assign_role_def io_return_def)
  have r: "registrations (t5 @ [Print ''Creating pipeline components...'']) =
      map (\<lambda>(name, dir, description).
             \<lparr>env_name = name, env_description = description, env_build_path = dir\<rparr>)
          env_configs"
    using r5 by simp
  show ?thesis
  proof (intro conjI impI)
    assume a: "role_assignments_create w scope name params = Inl (ResourceExistsError m)"
    then show c: "create_role_assignment w scope name params =
              ([Raised (Role_Assignments_Create scope name params) (ResourceExistsError m),
                Print ''Role assignment already exists. Skipping creation.''], Inr ())"
      by (simp add: create_role_assignment_def try_except_ResourceExistsError_def print_def)
    from rest [OF c] r show "\<exists>t p. provision w =
                (t1 @ t2 @ t3 @ t4
                   @ [Raised (Role_Assignments_Create scope name params) (ResourceExistsError m),
                      Print ''Role assignment already exists. Skipping creation.'']
                   @ t, Inr p)
              \<and> registrations t =
                  map (\<lambda>(name, dir, description).
                        \<lparr>env_name = name, env_description = description, env_build_path = dir\<rparr>)
                      env_configs"
      by blast
  next
    assume a: "role_assignments_create w scope name params = Inr ra"
    then show c: "create_role_assignment w scope name params =
              ([Returned (Role_Assignments_Create scope name params),
                Print (''Role assignment created: '' @ role_assignment_id ra)], Inr ())"
      by (simp add: create_role_assignment_def try_except_ResourceExistsError_def print_def)
    from rest [OF c] r show "\<exists>t p. provision w =
                (t1 @ t2 @ t3 @ t4
                   @ [Returned (Role_Assignments_Create scope name params),
                      Print (''Role assignment created: '' @ role_assignment_id ra)]
                   @ t, Inr p)
              \<and> registrations t =
                  map (\<lambda>(name, dir, description).
                        \<lparr>env_name = name, env_description = description, env_build_path = dir\<rparr>)
                      env_configs"
      by blast
  qed
qed

theorem duplicate_role_assignment_tolerated_witness:
  "create_role_assignment (with_role_answer (Inl (ResourceExistsError ''RoleAssignmentExists'')))
     ''/subscriptions/sub-1/resourceGroups/rg-1/providers/Microsoft.Storage/storageAccounts/storage1''
     ''0f8fad5b-d9cb-469f-a165-70867728950e''
     \<lparr>role_definition_id =
        ''/subscriptions/sub-1/providers/Microsoft.Authorization/roleDefinitions/ba92f5b4-2d11-453d-a403-e96b0029c9fe'',
      param_principal_id = ''principal-1'',
      principal_type = ''ServicePrincipal''\<rparr>
   = ([Raised (Role_Assignments_Create
         ''/subscriptions/sub-1/resourceGroups/rg-1/providers/Microsoft.Storage/storageAccounts/storage1''
         ''0f8fad5b-d9cb-469f-a165-70867728950e''
         \<lparr>role_definition_id =
            ''/subscriptions/sub-1/providers/Microsoft.Authorization/roleDefinitions/ba92f5b4-2d11-453d-a403-e96b0029c9fe'',
          param_principal_id = ''principal-1'',
          principal_type = ''ServicePrincipal''\<rparr>)
        (ResourceExistsError ''RoleAssignmentExists''),
       Print ''Role assignment already exists. Skipping creation.''], Inr ())
   \<and> (\<exists>t p. provision (with_role_answer (Inl (ResourceExistsError ''RoleAssignmentExists'')))
               = (t, Inr p))
   \<and> (\<exists>t p. provision (with_role_answer (Inr \<lparr>role_assignment_id = ''ra-2''\<rparr>))
               = (t, Inr p))"
proof -
  let ?dup = "with_role_answer (Inl (ResourceExistsError ''RoleAssignmentExists''))"
  let ?new = "with_role_answer (Inr \<lparr>role_assignment_id = ''ra-2''\<rparr>)"
  have a: "role_assignments_create ?dup s n p = Inl (ResourceExistsError ''RoleAssignmentExists'')"
    for s n p by (simp add: with_role_answer_def)
  have b: "role_assignments_create ?new s n p = Inr \<lparr>role_assignment_id = ''ra-2''\<rparr>"
    for s n p by (simp add: with_role_answer_def)
  note dup = duplicate_role_assignment_tolerated
    [OF phases_with_role_answer [of "Inl (ResourceExistsError ''RoleAssignmentExists'')"]
        environments_with_role_answer [of "Inl (ResourceExistsError ''RoleAssignmentExists'')"],
     where m = "''RoleAssignmentExists''"]
  note new = duplicate_role_assignment_tolerated
    [OF phases_with_role_answer [of "Inr \<lparr>role_assignment_id = ''ra-2''\<rparr>"]
        environments_with_role_answer [of "Inr \<lparr>role_assignment_id = ''ra-2''\<rparr>"],
     where ra = "\<lparr>role_assignment_id = ''ra-2''\<rparr>"]
  from dup a have 1: "create_role_assignment ?dup
     ''/subscriptions/sub-1/resourceGroups/rg-1/providers/Microsoft.Storage/storageAccounts/storage1''
     ''0f8fad5b-d9cb-469f-a165-70867728950e''
     \<lparr>role_definition_id =
        ''/subscriptions/sub-1/providers/Microsoft.Authorization/roleDefinitions/ba92f5b4-2d11-453d-a403-e96b0029c9fe'',
      param_principal_id = ''principal-1'',
      principal_type = ''ServicePrincipal''\<rparr>
   = ([Raised (Role_Assignments_Create
         ''/subscriptions/sub-1/resourceGroups/rg-1/providers/Microsoft.Storage/storageAccounts/storage1''
         ''0f8fad5b-d9cb-469f-a165-70867728950e''
         \<lparr>role_definition_id =
            ''/subscriptions/sub-1/providers/Microsoft.Authorization/roleDefinitions/ba92f5b4-2d11-453d-a403-e96b0029c9fe'',
          param_principal_id = ''principal-1'',
          principal_type = ''ServicePrincipal''\<rparr>)
        (ResourceExistsError ''RoleAssignmentExists''),
       Print ''Role assignment already exists. Skipping creation.''], Inr ())"
    and 2: "\<exists>t p. provision ?dup = (t, Inr p)"
    by blast+
  from new b have 3: "\<exists>t p. provision ?new = (t, Inr p)"
    by blast
  from 1 2 3 show ?thesis by (intro conjI)
qed

text \<open>
  C6. The \<open>except\<close> clause catches one thing: the resource-exists error raised by the
  creation of the role assignment. Every other raise of every call the run makes, the
  same error raised by another call included, ends the run: nothing happens after it
  (no retry, no recovery) and the exception is the result of \<open>main\<close>.
\<close>

theorem other_exceptions_propagate:
  "(handled c e \<longleftrightarrow> (\<exists>s n p m. c = Role_Assignments_Create s n p \<and> e = ResourceExistsError m))
   \<and> (fst (main w) = pre @ Raised c e # post \<and> \<not> handled c e \<longrightarrow>
        post = [] \<and> snd (main w) = Inl e)"
proof
  show "handled c e \<longleftrightarrow> (\<exists>s n p m. c = Role_Assignments_Create s n p \<and> e = ResourceExistsError m)"
    by (cases "(c, e)" rule: handled.cases) simp_all
  show "fst (main w) = pre @ Raised c e # post \<and> \<not> handled c e \<longrightarrow>
        post = [] \<and> snd (main w) = Inl e"
    using propagates_main [of w] unfolding propagates_def by blast
qed

theorem other_exceptions_propagate_witness:
  "fst (main (sample_world\<lparr>compute_begin_create_or_update :=
                  (\<lambda>c. Inl (ResourceExistsError ''exists''))\<rparr>)) =
     [Returned Default_Azure_Credential,
      Returned (ML_Client ''sub-1'' ''rg-1'' ''ws-1''),
      Print ''All required directories are present.'',
      Print ''Creating compute cluster...'',
      Returned Compute_List]
     @ Raised (Compute_Begin_Create_Or_Update compute_cluster) (ResourceExistsError ''exists'') # []
   \<and> \<not> handled (Compute_Begin_Create_Or_Update compute_cluster) (ResourceExistsError ''exists'')
   \<and> snd (main (sample_world\<lparr>compute_begin_create_or_update :=
                  (\<lambda>c. Inl (ResourceExistsError ''exists''))\<rparr>)) =
       Inl (ResourceExistsError ''exists'')"
proof -
  let ?w = "sample_world\<lparr>compute_begin_create_or_update :=
                  (\<lambda>c. Inl (ResourceExistsError ''exists''))\<rparr>"
  let ?pre = "[Returned Default_Azure_Credential,
      Returned (ML_Client ''sub-1'' ''rg-1'' ''ws-1''),
      Print ''All required directories are present.'',
      Print ''Creating compute cluster...'',
      Returned Compute_List]"
  have t: "fst (main ?w) =
      ?pre @ Raised (Compute_Begin_Create_Or_Update compute_cluster)
               (ResourceExistsError ''exists'') # []"
    by (simp add: main_def provision_def connect_def check_directories_eq
          missing_directories_def directories_def os_path_exists_def create_compute_def
          os_environ_def sample_world_def)
  have h: "\<not> handled (Compute_Begin_Create_Or_Update compute_cluster)
               (ResourceExistsError ''exists'')"
    by simp
  from other_exceptions_propagate
    [where w = ?w and pre = ?pre and post = "[]"
       and c = "Compute_Begin_Create_Or_Update compute_cluster"
       and e = "ResourceExistsError ''exists''"] t h
  have "snd (main ?w) = Inl (ResourceExistsError ''exists'')" by blast
  with t h show ?thesis by (intro conjI)
qed

text \<open>
  C7. If one of the three variables is not set, the run ends in an exception during
  the construction of the workspace client: the only thing it has done is construct
  the credential, so nothing was printed, the directories were not checked, the
  client was not constructed with any substituted value and no resource was touched.
  The credential is the first argument and is evaluated before the variables are
  read; when its construction returns, the exception is the \<open>KeyError\<close> of the first
  unset variable, in the order in which they are read.
\<close>

theorem unset_variable_aborts:
  assumes "environ w ''subscription_id'' = None \<or> environ w ''resource_group_name'' = None
           \<or> environ w ''workspace_name'' = None"
  shows "(\<exists>e. snd (main w) = Inl e)
         \<and> length (fst (main w)) = 1
         \<and> calls (fst (main w)) = [Default_Azure_Credential]
         \<and> (DefaultAzureCredential w 0 = Inr () \<longrightarrow>
              main w = ([Returned Default_Azure_Credential],
                        Inl (KeyError (hd (filter (\<lambda>k. environ w k = None)
                          [''subscription_id'', ''resource_group_name'', ''workspace_name''])))))"
proof -
  have c: "(\<exists>e. connect w = ([Raised Default_Azure_Credential e], Inl e))
           \<or> connect w = ([Returned Default_Azure_Credential],
                        Inl (KeyError (hd (filter (\<lambda>k. environ w k = None)
                          [''subscription_id'', ''resource_group_name'', ''workspace_name'']))))
             \<and> DefaultAzureCredential w 0 = Inr ()"
    using assms
    by (cases "DefaultAzureCredential w 0")
       (auto simp: connect_def os_environ_def split: option.splits)
  have m: "main w = (fst (connect w), Inl e)" if "snd (connect w) = Inl e" for e
    using that by (cases "connect w") (simp add: main_def provision_def)
  from c show ?thesis
  proof
    assume "\<exists>e. connect w = ([Raised Default_Azure_Credential e], Inl e)"
    then obtain e where e: "connect w = ([Raised Default_Azure_Credential e], Inl e)" ..
    then have "main w = ([Raised Default_Azure_Credential e], Inl e)" using m [of e] by simp
    moreover from e have "DefaultAzureCredential w 0 \<noteq> Inr ()"
      by (cases "DefaultAzureCredential w 0") (auto simp: connect_def os_environ_def split: option.splits)
    ultimately show ?thesis by simp
  next
    assume a: "connect w = ([Returned Default_Azure_Credential],
                        Inl (KeyError (hd (filter (\<lambda>k. environ w k = None)
                          [''subscription_id'', ''resource_group_name'', ''workspace_name'']))))
             \<and> DefaultAzureCredential w 0 = Inr ()"
    then have "main w = ([Returned Default_Azure_Credential],
                        Inl (KeyError (hd (filter (\<lambda>k. environ w k = None)
                          [''subscription_id'', ''resource_group_name'', ''workspace_name'']))))"
      using m by simp
    with a show ?thesis by simp
  qed
qed

theorem unset_variable_aborts_witness:
  "environ (sample_world\<lparr>environ := [''subscription_id'' \<mapsto> ''sub-1'', ''workspace_name'' \<mapsto> ''ws-1'']\<rparr>)
     ''resource_group_name'' = None
   \<and> DefaultAzureCredential
       (sample_world\<lparr>environ := [''subscription_id'' \<mapsto> ''sub-1'', ''workspace_name'' \<mapsto> ''ws-1'']\<rparr>) 0
     = Inr ()
   \<and> main (sample_world\<lparr>environ := [''subscription_id'' \<mapsto> ''sub-1'', ''workspace_name'' \<mapsto> ''ws-1'']\<rparr>)
     = ([Returned Default_Azure_Credential], Inl (KeyError ''resource_group_name''))"
proof -
  let ?w = "sample_world\<lparr>environ := [''subscription_id'' \<mapsto> ''sub-1'', ''workspace_name'' \<mapsto> ''ws-1'']\<rparr>"
  have a: "environ ?w ''resource_group_name'' = None" by simp
  have b: "DefaultAzureCredential ?w 0 = Inr ()" by (simp add: sample_world_def)
  have "environ ?w ''subscription_id'' = None \<or> environ ?w ''resource_group_name'' = None
           \<or> environ ?w ''workspace_name'' = None" using a by blast
  from unset_variable_aborts [OF this] a b show ?thesis by simp
qed

text \<open>
  C8. Whenever provisioning completes, the run has registered exactly three
  environments, in this order and each from its own build context: pytorch-onnx-env,
  onnx2c-env and gcc-env. Each registration returned a version, and the environment
  of every step of the declared pipeline is the name, a colon and that version: the
  training step has pytorch-onnx-env, the conversion step onnx2c-env, the compile/test
  step and the minimal-binary step gcc-env.
\<close>

theorem environments_bound_to_steps:
  assumes "provision w = (t, Inr p)"
  shows "registrations (fst (main w)) =
        [\<lparr>env_name = ''pytorch-onnx-env'',
          env_description = ''Environment for PyTorch training and ONNX export'',
          env_build_path = ''environments/pytorch''\<rparr>,
         \<lparr>env_name = ''onnx2c-env'',
          env_description = ''Environment for ONNX to C conversion'',
          env_build_path = ''environments/onnx2c''\<rparr>,
         \<lparr>env_name = ''gcc-env'',
          env_description = ''Environment for C compilation and testing'',
          env_build_path = ''environments/gcc''\<rparr>]
    \<and> (\<exists>v1 v2 v3.
      environments_create_or_update w
        \<lparr>env_name = ''pytorch-onnx-env'',
         env_description = ''Environment for PyTorch training and ONNX export'',
         env_build_path = ''environments/pytorch''\<rparr> = Inr v1
    \<and> environments_create_or_update w
        \<lparr>env_name = ''onnx2c-env'',
         env_description = ''Environment for ONNX to C conversion'',
         env_build_path = ''environments/onnx2c''\<rparr> = Inr v2
    \<and> environments_create_or_update w
        \<lparr>env_name = ''gcc-env'',
         env_description = ''Environment for C compilation and testing'',
         env_build_path = ''environments/gcc''\<rparr> = Inr v3
    \<and> map (\<lambda>s. (cmd_name (step_component s), cmd_environment (step_component s)))
          (pipeline_steps p) =
        [(''pytorch_train'', ''pytorch-onnx-env:'' @ registered_version v1),
         (''onnx2c'', ''onnx2c-env:'' @ registered_version v2),
         (''compile_and_test'', ''gcc-env:'' @ registered_version v3),
         (''build_minimal'', ''gcc-env:'' @ registered_version v3)])"
proof -
  from provision_Inr [OF assms] obtain t1 t2 t3 pid t4 t5 latest_envs t6 components
    where parts: "connect w = (t1, Inr ())" "check_directories w = (t2, Inr ())"
      "create_compute w = (t3, Inr pid)" "assign_role w pid = (t4, Inr ())"
      "define_components latest_envs = (t6, Inr components)"
    and envs: "create_environments w = (t5, Inr latest_envs)"
    and p: "p = nn_pipeline components" and t: "t = t1 @ t2 @ t3 @ t4 @ t5 @ t6"
    by blast
  from create_environments_Inr [OF envs] obtain v1 v2 v3 where
    v: "environments_create_or_update w
        \<lparr>env_name = ''pytorch-onnx-env'',
         env_description = ''Environment for PyTorch training and ONNX export'',
         env_build_path = ''environments/pytorch''\<rparr> = Inr v1"
      "environments_create_or_update w
        \<lparr>env_name = ''onnx2c-env'',
         env_description = ''Environment for ONNX to C conversion'',
         env_build_path = ''environments/onnx2c''\<rparr> = Inr v2"
      "environments_create_or_update w
        \<lparr>env_name = ''gcc-env'',
         env_description = ''Environment for C compilation and testing'',
         env_build_path = ''environments/gcc''\<rparr> = Inr v3"
    and r: "registrations t5 =
        [\<lparr>env_name = ''pytorch-onnx-env'',
          env_description = ''Environment for PyTorch training and ONNX export'',
          env_build_path = ''environments/pytorch''\<rparr>,
         \<lparr>env_name = ''onnx2c-env'',
          env_description = ''Environment for ONNX to C conversion'',
          env_build_path = ''environments/onnx2c''\<rparr>,
         \<lparr>env_name = ''gcc-env'',
          env_description = ''Environment for C compilation and testing'',
          env_build_path = ''environments/gcc''\<rparr>]"
    and l: "latest_envs ''pytorch-onnx-env'' = Some (''pytorch-onnx-env:'' @ registered_version v1)"
      "latest_envs ''onnx2c-env'' = Some (''onnx2c-env:'' @ registered_version v2)"
      "latest_envs ''gcc-env'' = Some (''gcc-env:'' @ registered_version v3)"
    by blast
  have "registrations t = registrations t5"
    unfolding t
    using quiet_parts(1) [OF parts(1)] quiet_parts(2) [OF parts(2)] quiet_parts(3) [OF parts(3)]
      quiet_parts(4) [OF parts(4)] quiet_parts(5) [OF parts(5)]
    by simp
  with r assms have 1: "registrations (fst (main w)) =
        [\<lparr>env_name = ''pytorch-onnx-env'',
          env_description = ''Environment for PyTorch training and ONNX export'',
          env_build_path = ''environments/pytorch''\<rparr>,
         \<lparr>env_name = ''onnx2c-env'',
          env_description = ''Environment for ONNX to C conversion'',
          env_build_path = ''environments/onnx2c''\<rparr>,
         \<lparr>env_name = ''gcc-env'',
          env_description = ''Environment for C compilation and testing'',
          env_build_path = ''environments/gcc''\<rparr>]"
    by (simp add: main_registrations)
  from parts(5) l have c: "components =
      (train_pytorch_model (''pytorch-onnx-env:'' @ registered_version v1),
       convert_onnx_to_c (''onnx2c-env:'' @ registered_version v2),
       compile_and_test (''gcc-env:'' @ registered_version v3),
       build_minimal_binary (''gcc-env:'' @ registered_version v3))"
    by (simp add: define_components_def dict_get_def io_return_def)
  have 2: "map (\<lambda>s. (cmd_name (step_component s), cmd_environment (step_component s)))
          (pipeline_steps p) =
        [(''pytorch_train'', ''pytorch-onnx-env:'' @ registered_version v1),
         (''onnx2c'', ''onnx2c-env:'' @ registered_version v2),
         (''compile_and_test'', ''gcc-env:'' @ registered_version v3),
         (''build_minimal'', ''gcc-env:'' @ registered_version v3)]"
    unfolding p c
    by (simp add: nn_pipeline_def Let_def instantiate_def train_pytorch_model_def
          convert_onnx_to_c_def compile_and_test_def build_minimal_binary_def)
  show ?thesis
    by (intro conjI exI) (rule 1 v 2)+
qed

theorem environments_bound_to_steps_witness:
  "registrations (fst (main sample_world)) =
        [\<lparr>env_name = ''pytorch-onnx-env'',
          env_description = ''Environment for PyTorch training and ONNX export'',
          env_build_path = ''environments/pytorch''\<rparr>,
         \<lparr>env_name = ''onnx2c-env'',
          env_description = ''Environment for ONNX to C conversion'',
          env_build_path = ''environments/onnx2c''\<rparr>,
         \<lparr>env_name = ''gcc-env'',
          env_description = ''Environment for C compilation and testing'',
          env_build_path = ''environments/gcc''\<rparr>]
   \<and> map (\<lambda>s. (cmd_name (step_component s), cmd_environment (step_component s)))
          (pipeline_steps (projr (snd (provision sample_world)))) =
        [(''pytorch_train'', ''pytorch-onnx-env:12''),
         (''onnx2c'', ''onnx2c-env:3''),
         (''compile_and_test'', ''gcc-env:7''),
         (''build_minimal'', ''gcc-env:7'')]"
proof -
  let ?p = "projr (snd (provision sample_world))"
  have p: "provision sample_world = (fst (provision sample_world), Inr ?p)"
    by (simp add: provision_sample_world)
  have v: "environments_create_or_update sample_world e =
            Inr \<lparr>registered_version =
              (if env_name e = ''gcc-env'' then ''7''
               else if env_name e = ''onnx2c-env'' then ''3'' else ''12'')\<rparr>" for e
    by (simp add: sample_world_def)
  from environments_bound_to_steps [OF p] show ?thesis
    unfolding v by auto
qed

text \<open>
  C9. After the branch on the existence of the cluster, the script reads
  \<open>identity.principal_id\<close> of the compute it fetches by name, in both branches and
  with no test. Whenever the run reaches that point and the compute has no identity,
  it ends there with \<open>AttributeError\<close>: the fetch is its last call, so the datastore
  lookup and the role assignment are never reached.
\<close>

theorem missing_identity_aborts:
  assumes "connect w = (t0, Inr ())"
    and "missing_directories w = []"
    and "compute_list w = Inr cs"
    and "''cpu-cluster'' \<notin> set (map compute_name cs) \<Longrightarrow>
           compute_begin_create_or_update w compute_cluster = Inr ()"
    and "compute_get w ''cpu-cluster'' = Inr c"
    and "compute_identity c = None"
  shows "main w =
    (t0 @ [Print ''All required directories are present.'',
           Print ''Creating compute cluster...'',
           Returned Compute_List]
        @ (if ''cpu-cluster'' \<in> set (map compute_name cs)
           then [Print ''Compute cluster already exists.'']
           else [Returned (Compute_Begin_Create_Or_Update compute_cluster),
                 Print ''Compute cluster created.''])
        @ [Returned (Compute_Get ''cpu-cluster'')],
     Inl (AttributeError ''principal_id''))"
proof -
  have "create_compute w =
    ([Print ''Creating compute cluster...'', Returned Compute_List]
        @ (if ''cpu-cluster'' \<in> set (map compute_name cs)
           then [Print ''Compute cluster already exists.'']
           else [Returned (Compute_Begin_Create_Or_Update compute_cluster),
                 Print ''Compute cluster created.''])
        @ [Returned (Compute_Get ''cpu-cluster'')],
     Inl (AttributeError ''principal_id''))"
    using assms(3-6)
    by (simp add: create_compute_def read_principal_id_def io_raise_def print_def)
  with assms(1,2) show ?thesis
    by (simp add: main_def provision_def check_directories_eq)
qed

theorem missing_identity_aborts_witness:
  "main (sample_world
      \<lparr>compute_list := Inr [\<lparr>compute_name = ''cpu-cluster'', compute_identity = None\<rparr>],
       compute_get := (\<lambda>n. Inr \<lparr>compute_name = n, compute_identity = None\<rparr>)\<rparr>)
   = ([Returned Default_Azure_Credential,
       Returned (ML_Client ''sub-1'' ''rg-1'' ''ws-1''),
       Print ''All required directories are present.'',
       Print ''Creating compute cluster...'',
       Returned Compute_List,
       Print ''Compute cluster already exists.'',
       Returned (Compute_Get ''cpu-cluster'')],
      Inl (AttributeError ''principal_id''))"
proof -
  let ?c = "\<lparr>compute_name = ''cpu-cluster'', compute_identity = None\<rparr>"
  let ?w = "sample_world
      \<lparr>compute_list := Inr [?c],
       compute_get := (\<lambda>n. Inr \<lparr>compute_name = n, compute_identity = None\<rparr>)\<rparr>"
  let ?t0 = "[Returned Default_Azure_Credential, Returned (ML_Client ''sub-1'' ''rg-1'' ''ws-1'')]"
  have 1: "connect ?w = (?t0, Inr ())"
    by (simp add: connect_def sample_world_def os_environ_def)
  have 2: "missing_directories ?w = []"
    by (simp add: missing_directories_def directories_def os_path_exists_def sample_world_def)
  have 3: "compute_list ?w = Inr [?c]" by simp
  have 4: "''cpu-cluster'' \<notin> set (map compute_name [?c]) \<Longrightarrow>
           compute_begin_create_or_update ?w compute_cluster = Inr ()" by simp
  have 5: "compute_get ?w ''cpu-cluster'' = Inr ?c" by simp
  have 6: "compute_identity ?c = None" by simp
  from missing_identity_aborts [OF 1 2 3 4 5 6] show ?thesis by simp
qed

text \<open>
  C10. The check asks only whether each required path exists. If every one of the
  seven paths names something, a regular file included, the check passes with its
  confirming line and raises nothing; and once the client is constructed the run goes
  on to provisioning. The outcome of the check is the same when every existing path
  is replaced by a regular file.
\<close>

theorem existence_is_enough:
  "check_directories (w\<lparr>filesystem := map_option (\<lambda>n. RegularFile) \<circ> filesystem w\<rparr>)
     = check_directories w
   \<and> ((\<forall>d \<in> set directories. filesystem w d \<noteq> None) \<longrightarrow>
        check_directories w = ([Print ''All required directories are present.''], Inr ())
        \<and> (connect w = (t0, Inr ()) \<longrightarrow>
             (\<exists>t r. main w =
                (t0 @ [Print ''All required directories are present.'',
                       Print ''Creating compute cluster...''] @ t, r)
              \<and> calls (take 1 t) = [Compute_List])))"
proof (intro conjI impI)
  show "check_directories (w\<lparr>filesystem := map_option (\<lambda>n. RegularFile) \<circ> filesystem w\<rparr>)
     = check_directories w"
    by (simp add: check_directories_def missing_directories_def os_path_exists_def)
next
  assume all: "\<forall>d \<in> set directories. filesystem w d \<noteq> None"
  then have none: "missing_directories w = []"
    by (simp add: missing_directories_def os_path_exists_def filter_empty_conv)
  then show "check_directories w = ([Print ''All required directories are present.''], Inr ())"
    by (simp add: check_directories_eq)
  assume "connect w = (t0, Inr ())"
  then show "\<exists>t r. main w =
                (t0 @ [Print ''All required directories are present.'',
                       Print ''Creating compute cluster...''] @ t, r)
              \<and> calls (take 1 t) = [Compute_List]"
    using none by (rule main_proceeds)
qed

theorem existence_is_enough_witness:
  "list_all (\<lambda>d. filesystem (sample_world\<lparr>filesystem := (\<lambda>p. if p \<in> set directories then Some RegularFile else None)\<rparr>) d
                  = Some RegularFile) directories
   \<and> check_directories (sample_world\<lparr>filesystem := (\<lambda>p. if p \<in> set directories then Some RegularFile else None)\<rparr>)
       = ([Print ''All required directories are present.''], Inr ())
   \<and> (\<exists>t r. main (sample_world\<lparr>filesystem := (\<lambda>p. if p \<in> set directories then Some RegularFile else None)\<rparr>) =
         ([Returned Default_Azure_Credential,
           Returned (ML_Client ''sub-1'' ''rg-1'' ''ws-1''),
           Print ''All required directories are present.'',
           Print ''Creating compute cluster...''] @ t, r)
       \<and> calls (take 1 t) = [Compute_List])"
proof -
  let ?w = "sample_world\<lparr>filesystem := (\<lambda>p. if p \<in> set directories then Some RegularFile else None)\<rparr>"
  let ?t0 = "[Returned Default_Azure_Credential, Returned (ML_Client ''sub-1'' ''rg-1'' ''ws-1'')]"
  have c: "connect ?w = (?t0, Inr ())" by (rule connect_sample_world)
  have a: "\<forall>d \<in> set directories. filesystem ?w d \<noteq> None" by simp
  have m: "list_all (\<lambda>d. filesystem ?w d = Some RegularFile) directories"
    by (simp add: list_all_iff)
  show ?thesis
    using existence_is_enough [of ?w ?t0] c a m by simp
qed

end
